theory Spec2Isabelle
  imports Complex_Main "HOL-Library.Log_Nat"
begin

section \<open>The store: rows and tables (pkg/database)\<close>

text \<open>
  Each Go struct of package \<open>database\<close> is a record; field names carry a two-letter
  prefix of the struct, since record fields share one name space. Identifiers are Go
  \<open>int64\<close> and weights Go \<open>int\<close>; no operation below does arithmetic on them that
  could leave the 64-bit range, so they are \<open>int\<close>. A SQLite \<open>REAL\<close> or Go
  \<open>float64\<close> value is the \<open>real\<close> number it denotes. The arithmetic of the metrics
  upsert rounds every operation to double precision (\<open>roundFloat64\<close> below); the
  router's scoring is stated over the reals.
  \<open>CURRENT_TIMESTAMP\<close> has a resolution of one second, so a time is a number of
  seconds (\<open>nat\<close>) and the clock is a parameter \<open>now\<close> of every operation that reads it.
  The columns \<open>created_at\<close>/\<open>updated_at\<close> of channels, users and models and
  \<open>last_updated_at\<close> of channel\_metrics are read by no operation modelled here and are
  left out.
\<close>

record Channel =
  ch_ID :: int
  ch_Name :: string
  ch_BaseURL :: string
  ch_APIKey :: string
  ch_Weight :: int
  ch_Enabled :: bool

record Model =
  md_ID :: int
  md_Name :: string

record ModelChannel =
  mc_ID :: int
  mc_ModelID :: int
  mc_ChannelID :: int
  mc_BackendModelName :: string
  mc_Weight :: int

record Session =
  se_ID :: int
  se_UserID :: int
  se_ChannelID :: int
  se_LastUsedAt :: nat
  se_CreatedAt :: nat

record ChannelMetrics =
  cm_ChannelID :: int
  cm_LatencyAvg :: real
  cm_ErrorRate :: real
  cm_RequestCount :: int
  cm_SuccessCount :: int

text \<open>
  A table is the list of its rows in rowid order. Every table with
  \<open>INTEGER PRIMARY KEY AUTOINCREMENT\<close> has a sequence holding the largest rowid ever
  handed out; an insert takes the next one.
\<close>

record DB =
  channels :: "Channel list"
  channels_seq :: int
  models :: "Model list"
  models_seq :: int
  model_channels :: "ModelChannel list"
  model_channels_seq :: int
  sessions :: "Session list"
  sessions_seq :: int
  channel_metrics :: "ChannelMetrics list"

datatype error =
    UniqueConstraint string
  | ModelNotFound string
  | NoChannelsConfigured string
  | NoSuitableChannel string
  | BindingError
  | TransportError
  | BackendError
  | DecodeError
  | Panic

text \<open>
  \<open>database.New\<close> opens the file with \<open>sql.Open("sqlite3", dbPath)\<close> and runs the two
  migrations; on a fresh file every table is empty. The data source name carries no
  \<open>_foreign_keys\<close> parameter and no migration issues \<open>PRAGMA foreign_keys\<close>, so the
  connection runs with SQLite's default: the \<open>FOREIGN KEY ... ON DELETE CASCADE\<close>
  clauses of the schema are parsed and not enforced. \<open>UNIQUE\<close> and \<open>PRIMARY KEY\<close>
  constraints are always enforced.
\<close>

definition New :: DB where
  "New = \<lparr>channels = [], channels_seq = 0, models = [], models_seq = 0,
          model_channels = [], model_channels_seq = 0,
          sessions = [], sessions_seq = 0, channel_metrics = []\<rparr>"

subsection \<open>Channels (channel.go)\<close>

definition CreateChannel :: "DB \<Rightarrow> Channel \<Rightarrow> (error + Channel) \<times> DB" where
  "CreateChannel db channel =
     (if ch_Name channel \<in> set (map ch_Name (channels db))
      then (Inl (UniqueConstraint ''channels.name''), db)
      else let c = channel\<lparr>ch_ID := channels_seq db + 1\<rparr>
           in (Inr c, db\<lparr>channels := channels db @ [c], channels_seq := channels_seq db + 1\<rparr>))"

definition GetChannel :: "DB \<Rightarrow> int \<Rightarrow> Channel option" where
  "GetChannel db i = find (\<lambda>c. ch_ID c = i) (channels db)"

text \<open>\<open>DELETE FROM channels WHERE id = ?\<close>, with foreign keys not enforced.\<close>

definition DeleteChannel :: "DB \<Rightarrow> int \<Rightarrow> DB" where
  "DeleteChannel db i = db\<lparr>channels := filter (\<lambda>c. ch_ID c \<noteq> i) (channels db)\<rparr>"

subsection \<open>Channel manager (internal/channel/manager.go)\<close>

record CreateRequest =
  cr_Name :: string
  cr_BaseURL :: string
  cr_APIKey :: string
  cr_Weight :: int
  cr_Enabled :: bool

definition Manager_Create :: "DB \<Rightarrow> CreateRequest \<Rightarrow> (error + Channel) \<times> DB" where
  "Manager_Create db req =
     (let w = (if cr_Weight req \<le> 0 then 10 else cr_Weight req)
      in CreateChannel db
           \<lparr>ch_ID = 0, ch_Name = cr_Name req, ch_BaseURL = cr_BaseURL req,
            ch_APIKey = cr_APIKey req, ch_Weight = w, ch_Enabled = cr_Enabled req\<rparr>)"

definition Manager_Delete :: "DB \<Rightarrow> int \<Rightarrow> DB" where
  "Manager_Delete db i = DeleteChannel db i"

subsection \<open>Models and model-channel bindings (model.go, model\_channel.go)\<close>

definition CreateModel :: "DB \<Rightarrow> Model \<Rightarrow> (error + Model) \<times> DB" where
  "CreateModel db model =
     (if md_Name model \<in> set (map md_Name (models db))
      then (Inl (UniqueConstraint ''models.name''), db)
      else let m = model\<lparr>md_ID := models_seq db + 1\<rparr>
           in (Inr m, db\<lparr>models := models db @ [m], models_seq := models_seq db + 1\<rparr>))"

definition GetModelByName :: "DB \<Rightarrow> string \<Rightarrow> Model option" where
  "GetModelByName db name = find (\<lambda>m. md_Name m = name) (models db)"

definition DeleteModel :: "DB \<Rightarrow> int \<Rightarrow> DB" where
  "DeleteModel db i = db\<lparr>models := filter (\<lambda>m. md_ID m \<noteq> i) (models db)\<rparr>"

definition AddModelChannel :: "DB \<Rightarrow> ModelChannel \<Rightarrow> (error + ModelChannel) \<times> DB" where
  "AddModelChannel db mc0 =
     (let mc = (if mc_Weight mc0 \<le> 0 then mc0\<lparr>mc_Weight := 10\<rparr> else mc0)
      in if (mc_ModelID mc, mc_ChannelID mc)
              \<in> set (map (\<lambda>x. (mc_ModelID x, mc_ChannelID x)) (model_channels db))
         then (Inl (UniqueConstraint ''model_channels.model_id, model_channels.channel_id''), db)
         else let r = mc\<lparr>mc_ID := model_channels_seq db + 1\<rparr>
              in (Inr r, db\<lparr>model_channels := model_channels db @ [r],
                             model_channels_seq := model_channels_seq db + 1\<rparr>))"

definition GetModelChannelsByModel :: "DB \<Rightarrow> int \<Rightarrow> ModelChannel list" where
  "GetModelChannelsByModel db modelID = filter (\<lambda>x. mc_ModelID x = modelID) (model_channels db)"

definition GetModelChannelsByChannel :: "DB \<Rightarrow> int \<Rightarrow> ModelChannel list" where
  "GetModelChannelsByChannel db channelID =
     filter (\<lambda>x. mc_ChannelID x = channelID) (model_channels db)"

definition RemoveAllModelChannelsForModel :: "DB \<Rightarrow> int \<Rightarrow> DB" where
  "RemoveAllModelChannelsForModel db modelID =
     db\<lparr>model_channels := filter (\<lambda>x. mc_ModelID x \<noteq> modelID) (model_channels db)\<rparr>"

text \<open>
  The model handler's \<open>DeleteModel\<close> (internal/model): "First remove all model-channel
  mappings", then delete the model.
\<close>

definition Handler_DeleteModel :: "DB \<Rightarrow> int \<Rightarrow> DB" where
  "Handler_DeleteModel db i = DeleteModel (RemoveAllModelChannelsForModel db i) i"

subsection \<open>Double-precision arithmetic\<close>

text \<open>
  SQLite evaluates an expression over a \<open>REAL\<close> and an \<open>INTEGER\<close> operand in IEEE-754
  double precision: the integer is converted to a double and every operation rounds its
  exact result to the nearest double, ties to the even significand. \<open>roundFloat64\<close> is
  that rounding with 53 significant bits and an unbounded exponent: it is the double
  rounding wherever the result neither overflows nor is subnormal, which holds for
  durations in seconds and request counts. \<open>binaryExponent x\<close> is the exponent \<open>e\<close>
  with \<open>2^e \<le> |x| < 2^(e+1)\<close>, computed from the bit length of the integer part of
  \<open>|x|\<close>, or of its inverse when \<open>|x| < 1\<close>; the spacing of the doubles around \<open>x\<close> is
  \<open>2^(e-52)\<close>.
\<close>

definition roundTiesToEven :: "real \<Rightarrow> int" where
  "roundTiesToEven y =
     (let f = \<lfloor>y\<rfloor>; d = y - of_int f
      in if d < 1 / 2 then f else if 1 / 2 < d then f + 1 else if even f then f else f + 1)"

definition binaryExponent :: "real \<Rightarrow> int" where
  "binaryExponent x =
     (let a = \<bar>x\<bar>
      in if 1 \<le> a then bitlen \<lfloor>a\<rfloor> - 1 else - bitlen (\<lceil>1 / a\<rceil> - 1))"

definition roundFloat64 :: "real \<Rightarrow> real" where
  "roundFloat64 x =
     (let ulp = 2 powi (binaryExponent x - 52)
      in of_int (roundTiesToEven (x / ulp)) * ulp)"

definition sqlReal :: "int \<Rightarrow> real" where
  "sqlReal n = roundFloat64 (of_int n)"

definition fmul :: "real \<Rightarrow> real \<Rightarrow> real" where
  "fmul x y = roundFloat64 (x * y)"

definition fadd :: "real \<Rightarrow> real \<Rightarrow> real" where
  "fadd x y = roundFloat64 (x + y)"

definition fdiv :: "real \<Rightarrow> real \<Rightarrow> real" where
  "fdiv x y = roundFloat64 (x / y)"

subsection \<open>Channel metrics (metrics.go)\<close>

definition boolToInt :: "bool \<Rightarrow> int" where
  "boolToInt b = (if b then 1 else 0)"

definition GetChannelMetrics :: "DB \<Rightarrow> int \<Rightarrow> ChannelMetrics option" where
  "GetChannelMetrics db channelID = find (\<lambda>m. cm_ChannelID m = channelID) (channel_metrics db)"

text \<open>
  The upsert: a row for the channel is inserted with count 1, and on conflict with the
  primary key the existing row is updated; every right-hand side of \<open>DO UPDATE SET\<close>
  reads the row as it was before the statement.
\<close>

definition metrics_update :: "real \<Rightarrow> bool \<Rightarrow> ChannelMetrics \<Rightarrow> ChannelMetrics" where
  "metrics_update latency success m =
     \<lparr>cm_ChannelID = cm_ChannelID m,
      cm_LatencyAvg =
        fdiv (fadd (fmul (cm_LatencyAvg m) (sqlReal (cm_RequestCount m))) latency)
             (sqlReal (cm_RequestCount m + 1)),
      cm_ErrorRate =
        fdiv (fadd (fmul (cm_ErrorRate m) (sqlReal (cm_RequestCount m)))
                   (sqlReal (boolToInt (\<not> success))))
             (sqlReal (cm_RequestCount m + 1)),
      cm_RequestCount = cm_RequestCount m + 1,
      cm_SuccessCount = cm_SuccessCount m + boolToInt success\<rparr>"

definition UpdateChannelMetrics :: "DB \<Rightarrow> int \<Rightarrow> real \<Rightarrow> bool \<Rightarrow> DB" where
  "UpdateChannelMetrics db channelID latency success =
     (case GetChannelMetrics db channelID of
        None \<Rightarrow>
          db\<lparr>channel_metrics := channel_metrics db @
               [\<lparr>cm_ChannelID = channelID, cm_LatencyAvg = latency,
                 cm_ErrorRate = of_int (boolToInt (\<not> success)),
                 cm_RequestCount = 1, cm_SuccessCount = boolToInt success\<rparr>]\<rparr>
      | Some _ \<Rightarrow>
          db\<lparr>channel_metrics :=
               map (\<lambda>m. if cm_ChannelID m = channelID then metrics_update latency success m else m)
                   (channel_metrics db)\<rparr>)"

definition ResetChannelMetrics :: "DB \<Rightarrow> int \<Rightarrow> DB" where
  "ResetChannelMetrics db channelID =
     db\<lparr>channel_metrics := filter (\<lambda>m. cm_ChannelID m \<noteq> channelID) (channel_metrics db)\<rparr>"

text \<open>
  The latency average the upsert leaves after \<open>n + 1\<close> records of the same latency on a
  channel that had no row: the insert stores the latency, every later record applies the
  update expression to the stored average and count.
\<close>

fun avgAfter :: "real \<Rightarrow> nat \<Rightarrow> real" where
  "avgAfter latency 0 = latency"
| "avgAfter latency (Suc n) =
     fdiv (fadd (fmul (avgAfter latency n) (sqlReal (int (Suc n)))) latency)
          (sqlReal (int (Suc n) + 1))"

subsection \<open>Sessions (session.go)\<close>

text \<open>
  \<open>INSERT INTO sessions (user_id, channel_id)\<close>: both timestamps default to
  \<open>CURRENT_TIMESTAMP\<close>, and the statement fails on \<open>UNIQUE(user_id, channel_id)\<close>.
  The Go function stores the new rowid in the struct it was given; the model returns it.
\<close>

definition CreateSession :: "nat \<Rightarrow> DB \<Rightarrow> int \<Rightarrow> int \<Rightarrow> (error + int) \<times> DB" where
  "CreateSession now db userID channelID =
     (if (userID, channelID) \<in> set (map (\<lambda>s. (se_UserID s, se_ChannelID s)) (sessions db))
      then (Inl (UniqueConstraint ''sessions.user_id, sessions.channel_id''), db)
      else (Inr (sessions_seq db + 1),
            db\<lparr>sessions := sessions db @
                   [\<lparr>se_ID = sessions_seq db + 1, se_UserID = userID, se_ChannelID = channelID,
                     se_LastUsedAt = now, se_CreatedAt = now\<rparr>],
               sessions_seq := sessions_seq db + 1\<rparr>))"

text \<open>
  \<open>ORDER BY last_used_at DESC LIMIT 1\<close>: a row with the largest \<open>last_used_at\<close>.
  SQL leaves the choice among rows with equal timestamps open; the model takes the one
  with the smallest rowid.
\<close>

fun most_recent :: "Session list \<Rightarrow> Session option" where
  "most_recent [] = None"
| "most_recent (s # ss) =
     (case most_recent ss of
        None \<Rightarrow> Some s
      | Some t \<Rightarrow> if se_LastUsedAt s < se_LastUsedAt t then Some t else Some s)"

definition GetSessionByUser :: "DB \<Rightarrow> int \<Rightarrow> Session option" where
  "GetSessionByUser db userID = most_recent (filter (\<lambda>s. se_UserID s = userID) (sessions db))"

definition GetSession :: "DB \<Rightarrow> int \<Rightarrow> Session option" where
  "GetSession db i = find (\<lambda>s. se_ID s = i) (sessions db)"

definition UpdateSessionLastUsed :: "nat \<Rightarrow> DB \<Rightarrow> int \<Rightarrow> DB" where
  "UpdateSessionLastUsed now db i =
     db\<lparr>sessions := map (\<lambda>s. if se_ID s = i then s\<lparr>se_LastUsedAt := now\<rparr> else s) (sessions db)\<rparr>"

section \<open>The routing engine (internal/router/engine.go)\<close>

record RouteResult =
  rr_Channel :: Channel
  rr_BackendModelName :: string
  rr_SessionID :: int
  rr_IsNew :: bool

record channelMapping =
  mp_channel :: Channel
  mp_backendModelName :: string
  mp_weight :: int

definition calculateScore :: "DB \<Rightarrow> Channel \<Rightarrow> real" where
  "calculateScore db channel =
     (let score = of_int (ch_Weight channel) in
      case GetChannelMetrics db (ch_ID channel) of
        None \<Rightarrow> score
      | Some metrics \<Rightarrow>
          let score1 = (if 0 < cm_LatencyAvg metrics
                        then score * (1 / (1 + cm_LatencyAvg metrics)) else score);
              errorFactor = 1 - cm_ErrorRate metrics;
              errorFactor1 = (if errorFactor < 1 / 10 then 1 / 10 else errorFactor)
          in score1 * errorFactor1)"

text \<open>
  The selection loop of \<open>selectBestMapping\<close>: \<open>cumulative += sc.score\<close>, return at the
  first \<open>r <= cumulative\<close>; \<open>None\<close> when the loop runs to its end.
\<close>

fun walk :: "real \<Rightarrow> real \<Rightarrow> ('a \<times> real) list \<Rightarrow> 'a option" where
  "walk r cumulative [] = None"
| "walk r cumulative ((m, score) # rest) =
     (if r \<le> cumulative + score then Some m else walk r (cumulative + score) rest)"

definition scoredMappings :: "DB \<Rightarrow> channelMapping list \<Rightarrow> (channelMapping \<times> real) list" where
  "scoredMappings db mappings =
     map (\<lambda>m. (m, calculateScore db (mp_channel m) * of_int (mp_weight m))) mappings"

text \<open>
  \<open>u\<close> is the value of \<open>rand.Float64()\<close>, a number in \<open>[0, 1)\<close>. On an empty slice the
  Go code indexes \<open>scored[len(scored)-1]\<close> and panics: the result \<open>None\<close>.
\<close>

definition selectBestMapping :: "DB \<Rightarrow> real \<Rightarrow> channelMapping list \<Rightarrow> channelMapping option" where
  "selectBestMapping db u mappings =
     (case mappings of
        [m] \<Rightarrow> Some m
      | _ \<Rightarrow>
        (let scored = scoredMappings db mappings;
             totalScore = sum_list (map snd scored);
             r = u * totalScore
         in case walk r 0 scored of
              Some m \<Rightarrow> Some m
            | None \<Rightarrow> (if scored = [] then None else Some (fst (last scored)))))"

text \<open>The loop of \<open>Route\<close> that keeps the bindings whose channel exists and is enabled.\<close>

fun enabledMappings :: "DB \<Rightarrow> ModelChannel list \<Rightarrow> channelMapping list" where
  "enabledMappings db [] = []"
| "enabledMappings db (mc # mcs) =
     (case GetChannel db (mc_ChannelID mc) of
        None \<Rightarrow> enabledMappings db mcs
      | Some channel \<Rightarrow>
          if ch_Enabled channel
          then \<lparr>mp_channel = channel, mp_backendModelName = mc_BackendModelName mc,
                mp_weight = mc_Weight mc\<rparr> # enabledMappings db mcs
          else enabledMappings db mcs)"

text \<open>
  The sticky phase of \<open>Route\<close>: every way out of the nested conditions other than the
  \<open>return\<close> inside the loop falls through to the selection phase, here \<open>None\<close>.
\<close>

definition stickyPhase :: "DB \<Rightarrow> int \<Rightarrow> string \<Rightarrow> (Channel \<times> ModelChannel \<times> Session) option" where
  "stickyPhase db userID model =
     (case GetSessionByUser db userID of
        None \<Rightarrow> None
      | Some session \<Rightarrow>
        (case GetChannel db (se_ChannelID session) of
           None \<Rightarrow> None
         | Some channel \<Rightarrow>
             if ch_Enabled channel then
               (case GetModelByName db model of
                  None \<Rightarrow> None
                | Some modelObj \<Rightarrow>
                    (case find (\<lambda>mc. mc_ModelID mc = md_ID modelObj)
                               (GetModelChannelsByChannel db (ch_ID channel)) of
                       None \<Rightarrow> None
                     | Some mc \<Rightarrow> Some (channel, mc, session)))
             else None))"

definition selectionPhase :: "nat \<Rightarrow> real \<Rightarrow> DB \<Rightarrow> int \<Rightarrow> string \<Rightarrow> (error + RouteResult) \<times> DB" where
  "selectionPhase now u db userID model =
     (case GetModelByName db model of
        None \<Rightarrow> (Inl (ModelNotFound model), db)
      | Some modelObj \<Rightarrow>
         (let modelChannels = GetModelChannelsByModel db (md_ID modelObj) in
          if modelChannels = [] then (Inl (NoChannelsConfigured model), db)
          else
            (let mappings = enabledMappings db modelChannels in
             if mappings = [] then (Inl (NoSuitableChannel model), db)
             else
               (case selectBestMapping db u mappings of
                  None \<Rightarrow> (Inl Panic, db)
                | Some bestMapping \<Rightarrow>
                   (case CreateSession now db userID (ch_ID (mp_channel bestMapping)) of
                      (Inl err, db') \<Rightarrow> (Inl err, db')
                    | (Inr sid, db') \<Rightarrow>
                        (Inr \<lparr>rr_Channel = mp_channel bestMapping,
                              rr_BackendModelName = mp_backendModelName bestMapping,
                              rr_SessionID = sid, rr_IsNew = True\<rparr>, db'))))))"

definition Route :: "nat \<Rightarrow> real \<Rightarrow> DB \<Rightarrow> int \<Rightarrow> string \<Rightarrow> (error + RouteResult) \<times> DB" where
  "Route now u db userID model =
     (case stickyPhase db userID model of
        Some (channel, mc, session) \<Rightarrow>
          (Inr \<lparr>rr_Channel = channel, rr_BackendModelName = mc_BackendModelName mc,
                rr_SessionID = se_ID session, rr_IsNew = False\<rparr>,
           UpdateSessionLastUsed now db (se_ID session))
      | None \<Rightarrow> selectionPhase now u db userID model)"

subsection \<open>The selection rule in the specification's words\<close>



section \<open>The health checker (pkg/health)\<close>

datatype Status = StatusHealthy | StatusUnhealthy | StatusUnknown

record ChannelHealth =
  hl_ChannelID :: int
  hl_Status :: Status
  hl_LastChecked :: nat
  hl_LastError :: string
  hl_ConsecutiveFailures :: int

text \<open>The checker's state is its map \<open>statuses\<close>; the mutex is not modelled.\<close>

type_synonym Checker = "int \<rightharpoonup> ChannelHealth"

definition NewChecker :: Checker where
  "NewChecker = Map.empty"

definition RegisterChannel :: "nat \<Rightarrow> Checker \<Rightarrow> int \<Rightarrow> Checker" where
  "RegisterChannel now c channelID =
     c(channelID \<mapsto> \<lparr>hl_ChannelID = channelID, hl_Status = StatusUnknown, hl_LastChecked = now,
                       hl_LastError = [], hl_ConsecutiveFailures = 0\<rparr>)"

definition GetStatus :: "Checker \<Rightarrow> int \<Rightarrow> ChannelHealth option" where
  "GetStatus c channelID = c channelID"

text \<open>\<open>err\<close> is \<open>None\<close> for Go's \<open>nil\<close> and \<open>Some\<close> of the message otherwise.\<close>

definition UpdateStatus :: "nat \<Rightarrow> Checker \<Rightarrow> int \<Rightarrow> bool \<Rightarrow> string option \<Rightarrow> Checker" where
  "UpdateStatus now c channelID healthy err =
     (case c channelID of
        None \<Rightarrow> c
      | Some status0 \<Rightarrow>
          (let status = status0\<lparr>hl_LastChecked := now\<rparr> in
           if healthy
           then c(channelID \<mapsto> status\<lparr>hl_Status := StatusHealthy, hl_ConsecutiveFailures := 0,
                                         hl_LastError := []\<rparr>)
           else
             (let s1 = status\<lparr>hl_ConsecutiveFailures := hl_ConsecutiveFailures status + 1\<rparr>;
                  s2 = (if 3 \<le> hl_ConsecutiveFailures s1 then s1\<lparr>hl_Status := StatusUnhealthy\<rparr>
                        else s1)
              in case err of
                   None \<Rightarrow> c(channelID \<mapsto> s2)
                 | Some e \<Rightarrow> c(channelID \<mapsto> s2\<lparr>hl_LastError := e\<rparr>))))"

section \<open>The chat-completions handler (internal/api/chat.go)\<close>

subsection \<open>Request bodies\<close>

text \<open>
  A request body after JSON parsing. An object is the list of its members in document
  order.
\<close>

datatype json =
    JNull
  | JBool bool
  | JNumber rat
  | JString string
  | JArray "json list"
  | JObject "(string \<times> json) list"

record ChatCompletionMessage =
  msg_Role :: string
  msg_Content :: string

text \<open>\<open>Messages\<close> is a Go slice: \<open>None\<close> is the nil slice, \<open>Some []\<close> an empty one.\<close>

record ChatCompletionRequest =
  rq_Model :: string
  rq_Messages :: "ChatCompletionMessage list option"
  rq_Stream :: bool

text \<open>
  \<open>c.ShouldBindJSON(&req)\<close> decodes the body with \<open>encoding/json\<close> and then validates the
  \<open>binding:"required"\<close> tags. The decoder matches a member name to the field whose
  \<open>json\<close> tag equals it under Unicode simple case folding. A string is the list of its
  UTF-8 bytes; \<open>foldName\<close> folds the letters A-Z to a-z, the long s (U+017F, bytes
  \<open>C5 BF\<close>) to \<open>s\<close> and the Kelvin sign (U+212A, bytes \<open>E2 84 AA\<close>) to \<open>k\<close>, the only
  characters outside ASCII that fold to an ASCII letter, so a name matches one of the
  tags below exactly when its fold is the tag. Members that match no field are skipped; \<open>null\<close> leaves a string, bool or struct as it is and makes a slice
  nil; a value of the wrong JSON type is an error. Members are decoded in document order,
  so a repeated name overwrites. (For a repeated \<open>messages\<close> array the library may keep
  fields of the earlier elements; the model decodes the later array from zero elements.
  No statement below is about a body with repeated names.)
\<close>

definition lowerChar :: "char \<Rightarrow> char" where
  "lowerChar c =
     (case map_of (zip ''ABCDEFGHIJKLMNOPQRSTUVWXYZ'' ''abcdefghijklmnopqrstuvwxyz'') c of
        None \<Rightarrow> c
      | Some l \<Rightarrow> l)"

fun foldName :: "string \<Rightarrow> string" where
  "foldName (a # b # c # cs) =
     (if a = CHR 0xE2 \<and> b = CHR 0x84 \<and> c = CHR 0xAA then CHR ''k'' # foldName cs
      else if a = CHR 0xC5 \<and> b = CHR 0xBF then CHR ''s'' # foldName (c # cs)
      else lowerChar a # foldName (b # c # cs))"
| "foldName [a, b] =
     (if a = CHR 0xC5 \<and> b = CHR 0xBF then [CHR ''s''] else [lowerChar a, lowerChar b])"
| "foldName [a] = [lowerChar a]"
| "foldName [] = []"

fun decodeMessageFields ::
  "(string \<times> json) list \<Rightarrow> ChatCompletionMessage \<Rightarrow> error + ChatCompletionMessage" where
  "decodeMessageFields [] m = Inr m"
| "decodeMessageFields ((k, v) # kvs) m =
     (if foldName k = ''role'' then
        (case v of
           JString s \<Rightarrow> decodeMessageFields kvs (m\<lparr>msg_Role := s\<rparr>)
         | JNull \<Rightarrow> decodeMessageFields kvs m
         | _ \<Rightarrow> Inl DecodeError)
      else if foldName k = ''content'' then
        (case v of
           JString s \<Rightarrow> decodeMessageFields kvs (m\<lparr>msg_Content := s\<rparr>)
         | JNull \<Rightarrow> decodeMessageFields kvs m
         | _ \<Rightarrow> Inl DecodeError)
      else decodeMessageFields kvs m)"

definition decodeMessage :: "json \<Rightarrow> error + ChatCompletionMessage" where
  "decodeMessage v =
     (case v of
        JObject kvs \<Rightarrow> decodeMessageFields kvs \<lparr>msg_Role = [], msg_Content = []\<rparr>
      | JNull \<Rightarrow> Inr \<lparr>msg_Role = [], msg_Content = []\<rparr>
      | _ \<Rightarrow> Inl DecodeError)"

fun decodeMessages :: "json list \<Rightarrow> error + ChatCompletionMessage list" where
  "decodeMessages [] = Inr []"
| "decodeMessages (v # vs) =
     (case decodeMessage v of
        Inl e \<Rightarrow> Inl e
      | Inr m \<Rightarrow> (case decodeMessages vs of Inl e \<Rightarrow> Inl e | Inr ms \<Rightarrow> Inr (m # ms)))"

fun decodeRequestFields ::
  "(string \<times> json) list \<Rightarrow> ChatCompletionRequest \<Rightarrow> error + ChatCompletionRequest" where
  "decodeRequestFields [] r = Inr r"
| "decodeRequestFields ((k, v) # kvs) r =
     (if foldName k = ''model'' then
        (case v of
           JString s \<Rightarrow> decodeRequestFields kvs (r\<lparr>rq_Model := s\<rparr>)
         | JNull \<Rightarrow> decodeRequestFields kvs r
         | _ \<Rightarrow> Inl DecodeError)
      else if foldName k = ''messages'' then
        (case v of
           JArray vs \<Rightarrow>
             (case decodeMessages vs of
                Inl e \<Rightarrow> Inl e
              | Inr ms \<Rightarrow> decodeRequestFields kvs (r\<lparr>rq_Messages := Some ms\<rparr>))
         | JNull \<Rightarrow> decodeRequestFields kvs (r\<lparr>rq_Messages := None\<rparr>)
         | _ \<Rightarrow> Inl DecodeError)
      else if foldName k = ''stream'' then
        (case v of
           JBool b \<Rightarrow> decodeRequestFields kvs (r\<lparr>rq_Stream := b\<rparr>)
         | JNull \<Rightarrow> decodeRequestFields kvs r
         | _ \<Rightarrow> Inl DecodeError)
      else decodeRequestFields kvs r)"

text \<open>Decoding a body into a zero-valued \<open>ChatCompletionRequest\<close>.\<close>

definition decodeRequest :: "json \<Rightarrow> error + ChatCompletionRequest" where
  "decodeRequest v =
     (case v of
        JObject kvs \<Rightarrow>
          decodeRequestFields kvs \<lparr>rq_Model = [], rq_Messages = None, rq_Stream = False\<rparr>
      | JNull \<Rightarrow> Inr \<lparr>rq_Model = [], rq_Messages = None, rq_Stream = False\<rparr>
      | _ \<Rightarrow> Inl DecodeError)"

text \<open>
  The body is \<open>None\<close> when it is not well-formed JSON. \<open>required\<close> fails on the empty
  string and on the nil slice.
\<close>

definition ShouldBindJSON :: "json option \<Rightarrow> error + ChatCompletionRequest" where
  "ShouldBindJSON body =
     (case body of
        None \<Rightarrow> Inl DecodeError
      | Some v \<Rightarrow>
          (case decodeRequest v of
             Inl e \<Rightarrow> Inl e
           | Inr req \<Rightarrow>
               if rq_Model req = [] then Inl BindingError
               else if rq_Messages req = None then Inl BindingError
               else Inr req))"

text \<open>
  \<open>json.Marshal\<close> of the request struct: the members in field order, \<open>stream\<close> left out
  when false (\<open>omitempty\<close>), a nil slice as \<open>null\<close>.
\<close>

definition marshalMessage :: "ChatCompletionMessage \<Rightarrow> json" where
  "marshalMessage m =
     JObject [(''role'', JString (msg_Role m)), (''content'', JString (msg_Content m))]"

definition marshalRequest :: "ChatCompletionRequest \<Rightarrow> json" where
  "marshalRequest r =
     JObject ([(''model'', JString (rq_Model r)),
               (''messages'', (case rq_Messages r of
                                 None \<Rightarrow> JNull
                               | Some ms \<Rightarrow> JArray (map marshalMessage ms)))]
              @ (if rq_Stream r then [(''stream'', JBool True)] else []))"

definition members :: "json \<Rightarrow> (string \<times> json) list" where
  "members v = (case v of JObject kvs \<Rightarrow> kvs | _ \<Rightarrow> [])"

subsection \<open>Forwarding\<close>

text \<open>
  The outbound HTTP request, and what comes back: \<open>TransportFailure\<close> when the request
  cannot be built or sent, otherwise the status code and whether the body could be
  consumed (unary: it decodes as a \<open>ChatCompletionResponse\<close>; streaming: it is read to
  end of file without a read error). The backend is a parameter of the model.
\<close>

record outbound =
  ob_URL :: string
  ob_ContentType :: string
  ob_Authorization :: string
  ob_Body :: json

datatype backend_reply = TransportFailure | HttpReply nat bool

definition forwardRequest ::
  "(outbound \<Rightarrow> backend_reply) \<Rightarrow> Channel \<Rightarrow> string \<Rightarrow> ChatCompletionRequest
     \<Rightarrow> error option \<times> outbound" where
  "forwardRequest backend channel backendModelName req =
     (let forwardReq = req\<lparr>rq_Model := backendModelName\<rparr>;
          httpReq = \<lparr>ob_URL = ch_BaseURL channel @ ''/chat/completions'',
                     ob_ContentType = ''application/json'',
                     ob_Authorization = ''Bearer '' @ ch_APIKey channel,
                     ob_Body = marshalRequest forwardReq\<rparr>
      in (case backend httpReq of
            TransportFailure \<Rightarrow> Some TransportError
          | HttpReply code ok \<Rightarrow>
              if code = 200 then (if ok then None else Some DecodeError)
              else Some BackendError,
          httpReq))"

definition forwardStreamRequest ::
  "(outbound \<Rightarrow> backend_reply) \<Rightarrow> Channel \<Rightarrow> string \<Rightarrow> ChatCompletionRequest
     \<Rightarrow> error option \<times> outbound" where
  "forwardStreamRequest backend channel backendModelName req =
     (let forwardReq = req\<lparr>rq_Model := backendModelName, rq_Stream := True\<rparr>;
          httpReq = \<lparr>ob_URL = ch_BaseURL channel @ ''/chat/completions'',
                     ob_ContentType = ''application/json'',
                     ob_Authorization = ''Bearer '' @ ch_APIKey channel,
                     ob_Body = marshalRequest forwardReq\<rparr>
      in (case backend httpReq of
            TransportFailure \<Rightarrow> Some TransportError
          | HttpReply code ok \<Rightarrow>
              if code = 200 then (if ok then None else Some TransportError)
              else Some BackendError,
          httpReq))"

subsection \<open>The handler\<close>

text \<open>
  The process state as \<open>server.Run\<close> sets it up: the database, the health checker
  that \<open>Run\<close> creates and starts, and the Prometheus collectors of package \<open>metrics\<close>,
  kept as the list of the operations applied to them, in order, each with its label
  values: \<open>RequestCounter\<close> (method, path, status), \<open>RequestDuration\<close> (method, path),
  \<open>ErrorCounter\<close> (type, channel) and \<open>ChannelLatency\<close> (channel, model).
  \<open>api.NewHandler\<close> receives the router, the channel manager and the database; the
  checker is handed to no component.
\<close>

datatype prom_event =
    RequestCounterInc string string string
  | RequestDurationObserve string string real
  | ErrorCounterInc string string
  | ChannelLatencyObserve string string real

record Server =
  sv_db :: DB
  sv_healthChecker :: Checker
  sv_prometheus :: "prom_event list"

text \<open>
  The recorders that the chat handler calls; durations are in seconds.
\<close>

definition RecordChannelLatency :: "string \<Rightarrow> string \<Rightarrow> real \<Rightarrow> Server \<Rightarrow> Server" where
  "RecordChannelLatency channel model duration srv =
     srv\<lparr>sv_prometheus := sv_prometheus srv @ [ChannelLatencyObserve channel model duration]\<rparr>"

definition RecordChannelError :: "string \<Rightarrow> Server \<Rightarrow> Server" where
  "RecordChannelError channel srv =
     srv\<lparr>sv_prometheus := sv_prometheus srv @ [ErrorCounterInc ''channel'' channel]\<rparr>"

text \<open>
  What the handler sends to the caller: \<open>c.JSON(status, ...)\<close>, or the relayed event
  stream when no \<open>c.JSON\<close> call is made.
\<close>

datatype response = JSON nat | EventStream

text \<open>
  \<open>userID\<close> is what the auth filter left in the request context, \<open>body\<close> the request
  body, \<open>now\<close> the clock, \<open>u\<close> the router's random draw, \<open>duration\<close> the measured
  \<open>time.Since(start).Seconds()\<close>. The result carries the response, the outbound request
  if one was made, and the state afterwards.
\<close>

definition ChatCompletions ::
  "(outbound \<Rightarrow> backend_reply) \<Rightarrow> nat \<Rightarrow> real \<Rightarrow> real \<Rightarrow> int option \<Rightarrow> json option \<Rightarrow> Server
     \<Rightarrow> (response \<times> outbound option) \<times> Server" where
  "ChatCompletions backend now u duration userID body srv =
     (case userID of
        None \<Rightarrow> ((JSON 401, None), srv)
      | Some uid \<Rightarrow>
        (case ShouldBindJSON body of
           Inl err \<Rightarrow> ((JSON 400, None), srv)
         | Inr req \<Rightarrow>
           (case Route now u (sv_db srv) uid (rq_Model req) of
              (Inl err, db') \<Rightarrow> ((JSON 503, None), srv\<lparr>sv_db := db'\<rparr>)
            | (Inr routeResult, db') \<Rightarrow>
                (let channel = rr_Channel routeResult;
                     srv1 = RecordChannelLatency (ch_Name channel) (rq_Model req) duration
                              (srv\<lparr>sv_db := db'\<rparr>)
                 in if rq_Stream req then
                      (case forwardStreamRequest backend channel
                              (rr_BackendModelName routeResult) req of
                         (Some err, httpReq) \<Rightarrow>
                           ((JSON 502, Some httpReq),
                            (RecordChannelError (ch_Name channel) srv1)
                              \<lparr>sv_db := UpdateChannelMetrics db' (ch_ID channel) duration False\<rparr>)
                       | (None, httpReq) \<Rightarrow>
                           ((EventStream, Some httpReq),
                            srv1\<lparr>sv_db := UpdateChannelMetrics db' (ch_ID channel) duration True\<rparr>))
                    else
                      (case forwardRequest backend channel
                              (rr_BackendModelName routeResult) req of
                         (Some err, httpReq) \<Rightarrow>
                           ((JSON 502, Some httpReq),
                            (RecordChannelError (ch_Name channel) srv1)
                              \<lparr>sv_db := UpdateChannelMetrics db' (ch_ID channel) duration False\<rparr>)
                       | (None, httpReq) \<Rightarrow>
                           ((JSON 200, Some httpReq),
                            srv1\<lparr>sv_db := UpdateChannelMetrics db' (ch_ID channel) duration True\<rparr>))))))"

text \<open>
  \<open>metrics.Middleware\<close>, which \<open>server.Run\<close> installs in front of every route: the part
  after \<open>c.Next()\<close>, when the handlers have returned and the response writer holds
  \<open>status\<close>. The label text \<open>http.StatusText\<close> gives for a status code is a parameter.
\<close>

definition Middleware ::
  "(nat \<Rightarrow> string) \<Rightarrow> string \<Rightarrow> string \<Rightarrow> real \<Rightarrow> nat \<Rightarrow> Server \<Rightarrow> Server" where
  "Middleware StatusText method fullPath duration status srv =
     srv\<lparr>sv_prometheus := sv_prometheus srv
           @ [RequestCounterInc method fullPath (StatusText status),
              RequestDurationObserve method fullPath duration]
           @ (if 400 \<le> status then [ErrorCounterInc ''http'' ''''] else [])\<rparr>"

section \<open>An example store\<close>

text \<open>
  Two enabled channels of weights 10 and 1; the logical models \<open>gpt-4\<close>, bound to the
  first channel only, \<open>gpt-3.5\<close>, bound to the second only, and \<open>gpt-mix\<close>, bound to
  both; one metrics row, for the first channel; no session.
\<close>

definition example_c1 :: Channel where
  "example_c1 = \<lparr>ch_ID = 1, ch_Name = ''c1'', ch_BaseURL = ''http://one'', ch_APIKey = ''k1'',
                  ch_Weight = 10, ch_Enabled = True\<rparr>"

definition example_c2 :: Channel where
  "example_c2 = \<lparr>ch_ID = 2, ch_Name = ''c2'', ch_BaseURL = ''http://two'', ch_APIKey = ''k2'',
                  ch_Weight = 1, ch_Enabled = True\<rparr>"

definition example_db :: DB where
  "example_db =
     \<lparr>channels = [example_c1, example_c2], channels_seq = 2,
      models = [\<lparr>md_ID = 1, md_Name = ''gpt-4''\<rparr>, \<lparr>md_ID = 2, md_Name = ''gpt-3.5''\<rparr>,
                \<lparr>md_ID = 3, md_Name = ''gpt-mix''\<rparr>],
      models_seq = 3,
      model_channels =
        [\<lparr>mc_ID = 1, mc_ModelID = 1, mc_ChannelID = 1, mc_BackendModelName = ''x'', mc_Weight = 1\<rparr>,
         \<lparr>mc_ID = 2, mc_ModelID = 2, mc_ChannelID = 2, mc_BackendModelName = ''y'', mc_Weight = 1\<rparr>,
         \<lparr>mc_ID = 3, mc_ModelID = 3, mc_ChannelID = 1, mc_BackendModelName = ''mx'', mc_Weight = 1\<rparr>,
         \<lparr>mc_ID = 4, mc_ModelID = 3, mc_ChannelID = 2, mc_BackendModelName = ''my'', mc_Weight = 1\<rparr>],
      model_channels_seq = 4,
      sessions = [], sessions_seq = 0,
      channel_metrics =
        [\<lparr>cm_ChannelID = 1, cm_LatencyAvg = 1, cm_ErrorRate = 0, cm_RequestCount = 1,
          cm_SuccessCount = 1\<rparr>]\<rparr>"

text \<open>
  The same store after user 7 has been routed for \<open>gpt-4\<close> at time 100, and then for
  \<open>gpt-3.5\<close> at time 200.
\<close>

definition example_s1 :: Session where
  "example_s1 = \<lparr>se_ID = 1, se_UserID = 7, se_ChannelID = 1, se_LastUsedAt = 100,
                  se_CreatedAt = 100\<rparr>"

definition example_s2 :: Session where
  "example_s2 = \<lparr>se_ID = 2, se_UserID = 7, se_ChannelID = 2, se_LastUsedAt = 200,
                  se_CreatedAt = 200\<rparr>"

definition example_db1 :: DB where
  "example_db1 = example_db\<lparr>sessions := [example_s1], sessions_seq := 1\<rparr>"

definition example_db2 :: DB where
  "example_db2 = example_db\<lparr>sessions := [example_s1, example_s2], sessions_seq := 2\<rparr>"

definition example_m1 :: channelMapping where
  "example_m1 = \<lparr>mp_channel = example_c1, mp_backendModelName = ''mx'', mp_weight = 1\<rparr>"

definition example_m2 :: channelMapping where
  "example_m2 = \<lparr>mp_channel = example_c2, mp_backendModelName = ''my'', mp_weight = 1\<rparr>"

text \<open>
  Request bodies: \<open>{"model": "gpt-4", "messages": [{"role": "user", "content": "hi"}],
  "temperature": 0.7}\<close>, and a body with no \<open>model\<close> member. A server state over the
  example store, with channel 1 registered at the health checker at time 0.
\<close>

definition example_message :: json where
  "example_message = JObject [(''role'', JString ''user''), (''content'', JString ''hi'')]"

definition example_body :: json where
  "example_body =
     JObject [(''model'', JString ''gpt-4''), (''messages'', JArray [example_message]),
              (''temperature'', JNumber (7 / 10))]"

definition example_body_no_model :: json where
  "example_body_no_model = JObject [(''messages'', JArray [example_message])]"

definition example_request :: ChatCompletionRequest where
  "example_request =
     \<lparr>rq_Model = ''gpt-4'', rq_Messages = Some [\<lparr>msg_Role = ''user'', msg_Content = ''hi''\<rparr>],
      rq_Stream = False\<rparr>"

definition example_outbound :: outbound where
  "example_outbound =
     \<lparr>ob_URL = ''http://one/chat/completions'', ob_ContentType = ''application/json'',
      ob_Authorization = ''Bearer k1'',
      ob_Body = JObject [(''model'', JString ''x''), (''messages'', JArray [example_message])]\<rparr>"

definition example_server :: Server where
  "example_server =
     \<lparr>sv_db = example_db, sv_healthChecker = RegisterChannel 0 NewChecker 1, sv_prometheus = []\<rparr>"

text \<open>
  The latency 0.1 s as a \<open>float64\<close>: the double nearest to one tenth,
  \<open>3602879701896397 / 2^55\<close>.
\<close>

definition example_latency :: real where
  "example_latency = 3602879701896397 / 36028797018963968"

section \<open>Double rounding\<close>

lemma round_err: "\<bar>of_int (roundTiesToEven y) - y\<bar> \<le> 1 / 2"
proof -
  have "of_int \<lfloor>y\<rfloor> \<le> y" "y < of_int \<lfloor>y\<rfloor> + 1" by linarith+
  then show ?thesis unfolding roundTiesToEven_def Let_def by (auto split: if_splits)
qed

lemma round_int [simp]: "roundTiesToEven (of_int z) = z"
  by (simp add: roundTiesToEven_def)

lemma round_nonneg: "0 \<le> y \<Longrightarrow> 0 \<le> roundTiesToEven y"
  unfolding roundTiesToEven_def Let_def by (auto split: if_splits)

lemma two_powi_pos [simp]: "0 < (2::real) powi n"
  by (simp add: zero_less_power_int)

lemma powr_powi: "(2::real) powr (of_int k) = 2 powi k"
  by (simp add: powr_real_of_int')

lemma powr_powi_Suc: "(2::real) powr (of_int k + 1) = 2 powi (k + 1)"
  using powr_powi [of "k + 1"] by simp

lemma binade:
  assumes "0 < x"
  shows "2 powi \<lfloor>log 2 x\<rfloor> \<le> x" and "x < 2 powi (\<lfloor>log 2 x\<rfloor> + 1)"
proof -
  have "2 powr (of_int \<lfloor>log 2 x\<rfloor>) \<le> x \<and> x < 2 powr (of_int \<lfloor>log 2 x\<rfloor> + 1)"
    using floor_log_eq_powr_iff [of x 2 "\<lfloor>log 2 x\<rfloor>"] assms by simp
  then show "2 powi \<lfloor>log 2 x\<rfloor> \<le> x" and "x < 2 powi (\<lfloor>log 2 x\<rfloor> + 1)"
    unfolding powr_powi powr_powi_Suc by simp_all
qed

lemma binade_unique:
  assumes "2 powi e \<le> x" "x < 2 powi (e + 1)"
  shows "\<lfloor>log 2 x\<rfloor> = e"
proof -
  have "0 < x" using assms(1) two_powi_pos [of e] by linarith
  moreover have "2 powr (of_int e) \<le> x \<and> x < 2 powr (of_int e + 1)"
    unfolding powr_powi powr_powi_Suc using assms by simp
  ultimately show ?thesis using floor_log_eq_powr_iff [of x 2 e] by simp
qed

lemma binaryExponent_bounds:
  assumes "x \<noteq> 0"
  shows "2 powi binaryExponent x \<le> \<bar>x\<bar>" and "\<bar>x\<bar> < 2 powi (binaryExponent x + 1)"
proof -
  define a where "a = \<bar>x\<bar>"
  have a: "0 < a" using assms by (simp add: a_def)
  have "2 powi binaryExponent x \<le> a \<and> a < 2 powi (binaryExponent x + 1)"
  proof (cases "1 \<le> a")
    case True
    define m where "m = \<lfloor>a\<rfloor>"
    have m: "0 < m" using True by (simp add: m_def)
    have e: "binaryExponent x = bitlen m - 1"
      using True by (simp add: binaryExponent_def a_def [symmetric] m_def Let_def)
    from bitlen_bounds [OF m] have b: "2 ^ nat (bitlen m - 1) \<le> m" "m < 2 ^ nat (bitlen m)"
      by simp_all
    have p: "1 \<le> bitlen m" using m by (simp add: bitlen_alt_def)
    have "(2::real) powi (bitlen m - 1) = of_int (2 ^ nat (bitlen m - 1))"
      using p by (simp add: power_int_def)
    also have "\<dots> \<le> of_int m" using b(1) by (simp only: of_int_le_iff)
    also have "\<dots> \<le> a" by (simp add: m_def)
    finally have lo: "2 powi (bitlen m - 1) \<le> a" .
    have "m + 1 \<le> 2 ^ nat (bitlen m)" using b(2) by simp
    then have "(of_int (m + 1) :: real) \<le> of_int (2 ^ nat (bitlen m))"
      by (simp only: of_int_le_iff)
    moreover have "a < of_int (m + 1)" by (simp add: m_def)
    moreover have "(2::real) powi (bitlen m) = of_int (2 ^ nat (bitlen m))"
      using p by (simp add: power_int_def)
    ultimately have "a < 2 powi (bitlen m)" by linarith
    with lo show ?thesis by (simp add: e)
  next
    case False
    define m where "m = \<lceil>1 / a\<rceil>"
    have inv: "1 < 1 / a" using False a by simp
    then have m: "0 < m - 1" by (simp add: m_def less_ceiling_iff)
    define j where "j = bitlen (m - 1)"
    have e: "binaryExponent x = - j"
      using False by (simp add: binaryExponent_def a_def [symmetric] m_def j_def Let_def)
    from bitlen_bounds [OF m] have b: "2 ^ nat (j - 1) \<le> m - 1" "m - 1 < 2 ^ nat j"
      by (simp_all add: j_def)
    have p: "1 \<le> j" using m by (simp add: j_def bitlen_alt_def)
    have "1 / a \<le> of_int m" by (simp add: m_def)
    also have "(of_int m :: real) \<le> of_int (2 ^ nat j)"
      using b(2) by (simp only: of_int_le_iff)
    also have "\<dots> = 2 powi j" using p by (simp add: power_int_def)
    finally have "1 / a \<le> 2 powi j" .
    then have "1 \<le> 2 powi j * a" using a by (simp add: field_simps)
    then have lo: "2 powi (- j) \<le> a"
      by (simp add: power_int_minus field_simps)
    have "(2::real) powi (j - 1) = of_int (2 ^ nat (j - 1))"
      using p by (simp add: power_int_def)
    also have "\<dots> \<le> of_int (m - 1)" using b(1) by (simp only: of_int_le_iff)
    also have "(of_int (m - 1) :: real) < 1 / a"
      unfolding m_def by linarith
    finally have "2 powi (j - 1) < 1 / a" .
    then have "2 powi (j - 1) * a < 1" using a by (simp add: field_simps)
    moreover have pos: "0 < (2::real) powi (j - 1)" by simp
    ultimately have "a < 1 / 2 powi (j - 1)" by (simp add: pos_less_divide_eq mult.commute)
    also have "1 / (2::real) powi (j - 1) = 2 powi (- (j - 1))"
      using power_int_minus [of "2::real" "j - 1"] by (simp add: divide_inverse)
    finally have hi: "a < 2 powi (- j + 1)" by (simp add: algebra_simps)
    from lo hi show ?thesis by (simp add: e)
  qed
  then show "2 powi binaryExponent x \<le> \<bar>x\<bar>" and "\<bar>x\<bar> < 2 powi (binaryExponent x + 1)"
    by (simp_all add: a_def)
qed

lemma binaryExponent_log: "x \<noteq> 0 \<Longrightarrow> binaryExponent x = \<lfloor>log 2 \<bar>x\<bar>\<rfloor>"
  using binade_unique [OF binaryExponent_bounds] by simp

lemma round_zero [simp]: "roundTiesToEven 0 = 0"
  by (simp add: roundTiesToEven_def)

lemma roundFloat64_log:
  "roundFloat64 x =
     (let ulp = 2 powi (\<lfloor>log 2 \<bar>x\<bar>\<rfloor> - 52)
      in of_int (roundTiesToEven (x / ulp)) * ulp)"
  by (cases "x = 0") (simp_all add: roundFloat64_def Let_def binaryExponent_log)

lemma roundFloat64_zero [simp]: "roundFloat64 0 = 0"
  by (simp add: roundFloat64_log)

lemma roundFloat64_eval:
  assumes "2 powi e \<le> \<bar>x\<bar>" "\<bar>x\<bar> < 2 powi (e + 1)"
  shows "roundFloat64 x = of_int (roundTiesToEven (x / 2 powi (e - 52))) * 2 powi (e - 52)"
  by (simp add: roundFloat64_log Let_def binade_unique [OF assms])

lemma roundFloat64_nonneg: "0 \<le> x \<Longrightarrow> 0 \<le> roundFloat64 x"
  unfolding roundFloat64_log Let_def
  by (intro mult_nonneg_nonneg) (auto intro!: round_nonneg simp: less_imp_le)

lemma roundFloat64_abs_err:
  assumes "x \<noteq> 0"
  shows "\<bar>roundFloat64 x - x\<bar> \<le> \<bar>x\<bar> * 2 powi (- 53)"
proof -
  define e where "e = \<lfloor>log 2 \<bar>x\<bar>\<rfloor>"
  define ulp :: real where "ulp = 2 powi (e - 52)"
  have up: "0 < ulp" by (simp add: ulp_def)
  have fl: "roundFloat64 x = of_int (roundTiesToEven (x / ulp)) * ulp"
    by (simp add: roundFloat64_log Let_def ulp_def e_def)
  have "roundFloat64 x - x = (of_int (roundTiesToEven (x / ulp)) - x / ulp) * ulp"
    using up by (simp add: fl field_simps)
  then have "\<bar>roundFloat64 x - x\<bar> = \<bar>of_int (roundTiesToEven (x / ulp)) - x / ulp\<bar> * ulp"
    using up by (simp add: abs_mult)
  also have "\<dots> \<le> (1 / 2) * ulp"
    using round_err [of "x / ulp"] up by (intro mult_right_mono) simp_all
  also have "(1 / 2) * ulp = 2 powi e * 2 powi (- 53)"
  proof -
    have "ulp = 2 powi (e + (- 52))" by (simp add: ulp_def)
    also have "\<dots> = 2 powi e * 2 powi (- 52)" by (subst power_int_add) simp_all
    finally have "ulp = 2 powi e * 2 powi (- 52)" .
    moreover have "(1 / 2) * (2::real) powi (- 52) = 2 powi (- 53)"
      by (simp add: power_int_minus)
    ultimately show ?thesis by (simp add: mult.assoc mult.left_commute)
  qed
  also have "\<dots> \<le> \<bar>x\<bar> * 2 powi (- 53)"
    using binade(1) [of "\<bar>x\<bar>"] assms by (intro mult_right_mono) (simp_all add: e_def)
  finally show ?thesis .
qed

lemma roundFloat64_rel:
  assumes "0 \<le> x"
  shows "x * (1 - 2 powi (- 53)) \<le> roundFloat64 x" and "roundFloat64 x \<le> x * (1 + 2 powi (- 53))"
proof -
  define u :: real where "u = 2 powi (- 53)"
  have "\<bar>roundFloat64 x - x\<bar> \<le> x * u"
  proof (cases "x = 0")
    case True then show ?thesis by simp
  next
    case False then show ?thesis using roundFloat64_abs_err [of x] assms by (simp add: u_def)
  qed
  then have "x * (1 - u) \<le> roundFloat64 x" and "roundFloat64 x \<le> x * (1 + u)"
    by (simp_all add: algebra_simps abs_le_iff)
  then show "x * (1 - 2 powi (- 53)) \<le> roundFloat64 x"
    and "roundFloat64 x \<le> x * (1 + 2 powi (- 53))"
    unfolding u_def .
qed

lemma roundFloat64_exact:
  assumes "x = of_int m * 2 powi j" "\<bar>m\<bar> < 2 ^ 53"
  shows "roundFloat64 x = x"
proof (cases "m = 0")
  case True
  then show ?thesis using assms by simp
next
  case False
  define e where "e = \<lfloor>log 2 \<bar>x\<bar>\<rfloor>"
  have xpos: "0 < \<bar>x\<bar>" using False assms(1) by simp
  have ax: "\<bar>x\<bar> = of_int \<bar>m\<bar> * 2 powi j"
    by (simp add: assms(1) abs_mult)
  have "of_int \<bar>m\<bar> < (2::real) ^ 53" using assms(2) by (metis of_int_less_numeral_power_cancel_iff)
  then have "\<bar>x\<bar> < 2 ^ 53 * 2 powi j" unfolding ax by (intro mult_strict_right_mono) simp_all
  also have "\<dots> = 2 powi (53 + j)" by (subst power_int_add) simp_all
  finally have "2 powi e < (2::real) powi (53 + j)"
    using binade(1) [OF xpos] by (simp add: e_def)
  then have "e < 53 + j"
    using power_int_increasing [of "53 + j" e "2::real"] by (cases "e < 53 + j") simp_all
  then have "0 \<le> j - (e - 52)" by simp
  then obtain d :: nat where "j - (e - 52) = int d" using nonneg_int_cases by blast
  then have d: "j = (e - 52) + int d" by simp
  have "2 powi j = (2::real) powi (e - 52) * 2 ^ d"
    unfolding d by (subst power_int_add) simp_all
  then have "x / 2 powi (e - 52) = of_int (m * 2 ^ d)"
    by (simp add: assms(1))
  then have "roundFloat64 x = of_int (m * 2 ^ d) * 2 powi (e - 52)"
    by (simp add: roundFloat64_log Let_def e_def del: of_int_mult of_int_power)
  also have "\<dots> = x" using \<open>2 powi j = 2 powi (e - 52) * 2 ^ d\<close> by (simp add: assms(1))
  finally show ?thesis .
qed

lemma roundFloat64_of_int: "\<bar>n\<bar> < 2 ^ 53 \<Longrightarrow> roundFloat64 (of_int n) = of_int n"
  using roundFloat64_exact [of "of_int n" n 0] by simp

section \<open>Metrics aggregation\<close>

lemma find_append_new:
  "find P xs = None \<Longrightarrow> P x \<Longrightarrow> find P (xs @ [x]) = Some x"
  by (induction xs) (auto split: if_splits)

lemma find_map_update:
  "find (\<lambda>m. cm_ChannelID m = c) xs = Some r \<Longrightarrow>
   find (\<lambda>m. cm_ChannelID m = c)
        (map (\<lambda>m. if cm_ChannelID m = c then metrics_update l s m else m) xs)
     = Some (metrics_update l s r)"
  by (induction xs) (auto simp: metrics_update_def split: if_splits)

lemma find_filter_out: "find P (filter (\<lambda>x. \<not> P x) xs) = None"
  by (induction xs) auto

lemma metrics_first_record:
  "GetChannelMetrics db c = None \<Longrightarrow>
   GetChannelMetrics (UpdateChannelMetrics db c l s) c =
     Some \<lparr>cm_ChannelID = c, cm_LatencyAvg = l, cm_ErrorRate = of_int (boolToInt (\<not> s)),
           cm_RequestCount = 1, cm_SuccessCount = boolToInt s\<rparr>"
  by (simp add: UpdateChannelMetrics_def GetChannelMetrics_def find_append_new)

lemma metrics_next_record:
  "GetChannelMetrics db c = Some r \<Longrightarrow>
   GetChannelMetrics (UpdateChannelMetrics db c l s) c = Some (metrics_update l s r)"
  by (simp add: UpdateChannelMetrics_def GetChannelMetrics_def find_map_update)

lemma metrics_after_reset: "GetChannelMetrics (ResetChannelMetrics db c) c = None"
  by (simp add: ResetChannelMetrics_def GetChannelMetrics_def find_filter_out)

lemma sqlReal_exact: "\<bar>n\<bar> < 2 ^ 53 \<Longrightarrow> sqlReal n = of_int n"
  by (simp add: sqlReal_def roundFloat64_of_int)

lemma roundFloat64_one [simp]: "roundFloat64 1 = 1"
  using roundFloat64_of_int [of 1] by simp

lemma metrics_update_failure:
  assumes "0 < k" "k + 1 < 2 ^ 53"
  shows "metrics_update l False
           \<lparr>cm_ChannelID = c, cm_LatencyAvg = a, cm_ErrorRate = 1,
            cm_RequestCount = k, cm_SuccessCount = 0\<rparr>
         = \<lparr>cm_ChannelID = c,
            cm_LatencyAvg = fdiv (fadd (fmul a (sqlReal k)) l) (sqlReal (k + 1)),
            cm_ErrorRate = 1,
            cm_RequestCount = k + 1, cm_SuccessCount = 0\<rparr>"
proof -
  have k: "sqlReal k = of_int k" "sqlReal (k + 1) = of_int (k + 1)" "sqlReal 1 = 1"
    using assms by (simp_all add: sqlReal_exact)
  have "fmul 1 (sqlReal k) = of_int k"
    using assms by (simp add: fmul_def k roundFloat64_of_int)
  moreover have "fadd (of_int k) 1 = of_int (k + 1)"
    using assms roundFloat64_of_int [of "k + 1"] by (simp add: fadd_def)
  moreover have "fdiv (of_int (k + 1)) (of_int (k + 1)) = 1"
    using assms by (simp add: fdiv_def)
  ultimately show ?thesis
    by (simp add: metrics_update_def boolToInt_def k)
qed

lemma failures_only:
  "GetChannelMetrics db c = None \<Longrightarrow> int (Suc n) < 2 ^ 53 \<Longrightarrow>
   GetChannelMetrics (((\<lambda>d. UpdateChannelMetrics d c l False) ^^ Suc n) db) c =
     Some \<lparr>cm_ChannelID = c, cm_LatencyAvg = avgAfter l n, cm_ErrorRate = 1,
           cm_RequestCount = int (Suc n), cm_SuccessCount = 0\<rparr>"
proof (induction n)
  case 0
  then show ?case
    using metrics_first_record [where db = db and c = c and l = l and s = False]
    by (simp add: boolToInt_def)
next
  case (Suc n)
  from Suc.prems have small: "int (Suc n) < 2 ^ 53" "int (Suc n) + 1 < 2 ^ 53" by simp_all
  have "GetChannelMetrics (((\<lambda>d. UpdateChannelMetrics d c l False) ^^ Suc (Suc n)) db) c
        = Some (metrics_update l False
             \<lparr>cm_ChannelID = c, cm_LatencyAvg = avgAfter l n, cm_ErrorRate = 1,
              cm_RequestCount = int (Suc n), cm_SuccessCount = 0\<rparr>)"
    using metrics_next_record [OF Suc.IH [OF Suc.prems(1) small(1)], where l = l and s = False]
    by simp
  also have "\<dots> = Some \<lparr>cm_ChannelID = c, cm_LatencyAvg = avgAfter l (Suc n), cm_ErrorRate = 1,
              cm_RequestCount = int (Suc (Suc n)), cm_SuccessCount = 0\<rparr>"
    using metrics_update_failure [where k = "int (Suc n)" and l = l and c = c
            and a = "avgAfter l n"] small
    by (simp add: add.commute)
  finally show ?case .
qed

lemma avg_step_upper:
  fixes L N a hi A t1 t2 t3 :: real
  assumes L: "0 \<le> L" and N: "0 < N" and a: "1 \<le> a" and hi1: "1 \<le> hi"
    and hi: "A \<le> L * hi"
    and t1: "t1 \<le> A * N * a"
    and t2: "t2 \<le> (t1 + L) * a"
    and t3: "t3 \<le> t2 / (N + 1) * a"
  shows "t3 \<le> L * (hi * a ^ 3)"
proof -
  have a0: "0 \<le> a" using a by simp
  have "A * N * a \<le> L * hi * N * a"
    using hi N a0 by (intro mult_right_mono) simp_all
  with t1 have b1: "t1 \<le> L * hi * N * a" by simp
  have "1 \<le> hi * a" using hi1 a by (metis mult_mono' mult_1 zero_le_one)
  then have "L * 1 \<le> L * (hi * a)" using L by (intro mult_left_mono)
  then have "L \<le> L * hi * a" by (simp add: mult.assoc)
  with b1 have "t1 + L \<le> L * hi * N * a + L * hi * a" by simp
  also have "\<dots> = L * hi * a * (N + 1)" by (simp add: algebra_simps)
  finally have "(t1 + L) * a \<le> L * hi * a * (N + 1) * a"
    using a0 by (intro mult_right_mono)
  with t2 have b2: "t2 \<le> L * hi * a * (N + 1) * a" by simp
  have "t2 / (N + 1) \<le> L * hi * a * (N + 1) * a / (N + 1)"
    using b2 N by (intro divide_right_mono) simp_all
  also have "\<dots> = L * hi * a * a" using N by simp
  finally have "t2 / (N + 1) * a \<le> L * hi * a * a * a"
    using a0 by (intro mult_right_mono)
  with t3 have "t3 \<le> L * hi * a * a * a" by simp
  then show ?thesis by (simp add: power3_eq_cube mult.assoc)
qed

lemma avg_step_lower:
  fixes L N b lo A t1 t2 t3 :: real
  assumes L: "0 \<le> L" and N: "0 < N" and b: "0 \<le> b" "b \<le> 1" and lo1: "0 \<le> lo" "lo \<le> 1"
    and lo: "L * lo \<le> A"
    and t1: "A * N * b \<le> t1"
    and t2: "(t1 + L) * b \<le> t2"
    and t3: "t2 / (N + 1) * b \<le> t3"
  shows "L * (lo * b ^ 3) \<le> t3"
proof -
  have "L * lo * N * b \<le> A * N * b"
    using lo N b(1) by (intro mult_right_mono) simp_all
  with t1 have b1: "L * lo * N * b \<le> t1" by simp
  have "lo * b \<le> 1" using lo1 b by (metis mult_mono' mult_1)
  then have "L * (lo * b) \<le> L * 1" using L by (intro mult_left_mono)
  then have "L * lo * b \<le> L" by (simp add: mult.assoc)
  with b1 have "L * lo * N * b + L * lo * b \<le> t1 + L" by simp
  moreover have "L * lo * N * b + L * lo * b = L * lo * b * (N + 1)" by (simp add: algebra_simps)
  ultimately have "L * lo * b * (N + 1) \<le> t1 + L" by simp
  then have "L * lo * b * (N + 1) * b \<le> (t1 + L) * b"
    using b(1) by (intro mult_right_mono)
  with t2 have b2: "L * lo * b * (N + 1) * b \<le> t2" by simp
  have "L * lo * b * (N + 1) * b / (N + 1) \<le> t2 / (N + 1)"
    using b2 N by (intro divide_right_mono) simp_all
  moreover have "L * lo * b * (N + 1) * b / (N + 1) = L * lo * b * b" using N by simp
  ultimately have "L * lo * b * b \<le> t2 / (N + 1)" by simp
  then have "L * lo * b * b * b \<le> t2 / (N + 1) * b"
    using b(1) by (intro mult_right_mono)
  with t3 have "L * lo * b * b * b \<le> t3" by simp
  then show ?thesis by (simp add: power3_eq_cube mult.assoc)
qed


lemma u_bounds: "0 \<le> 1 - (2::real) powi (- 53)" "1 - (2::real) powi (- 53) \<le> 1"
  "1 \<le> 1 + (2::real) powi (- 53)"
  by (simp_all add: power_int_minus)

lemma avgAfter_bounds:
  assumes "0 \<le> L" "int (Suc n) < 2 ^ 53"
  shows "L * (1 - 2 powi (- 53)) ^ (3 * n) \<le> avgAfter L n
         \<and> avgAfter L n \<le> L * (1 + 2 powi (- 53)) ^ (3 * n)"
  using assms(2)
proof (induction n)
  case 0
  then show ?case by simp
next
  case (Suc n)
  define a :: real where "a = 1 + 2 powi (- 53)"
  define b :: real where "b = 1 - 2 powi (- 53)"
  define N :: real where "N = of_int (int (Suc n))"
  define A where "A = avgAfter L n"
  define t1 where "t1 = fmul A (sqlReal (int (Suc n)))"
  define t2 where "t2 = fadd t1 L"
  define t3 where "t3 = fdiv t2 (sqlReal (int (Suc n) + 1))"
  have ab: "0 \<le> b" "b \<le> 1" "1 \<le> a" unfolding a_def b_def by (rule u_bounds)+
  from Suc.prems have small: "int (Suc n) < 2 ^ 53" "int (Suc n) + 1 < 2 ^ 53" by simp_all
  have IH: "L * b ^ (3 * n) \<le> A" "A \<le> L * a ^ (3 * n)"
    using Suc.IH [OF small(1)] unfolding a_def b_def A_def by simp_all
  have N: "0 < N" "sqlReal (int (Suc n)) = N" "sqlReal (int (Suc n) + 1) = N + 1"
    using small by (simp_all add: N_def sqlReal_exact)
  have lo1: "0 \<le> b ^ (3 * n)" "b ^ (3 * n) \<le> 1"
    using ab by (simp_all add: power_le_one)
  have hi1: "1 \<le> a ^ (3 * n)" using ab by (simp add: one_le_power)
  have A0: "0 \<le> A" using IH(1) assms(1) lo1(1) by (meson mult_nonneg_nonneg order_trans)
  have AN: "0 \<le> A * N" using A0 N(1) by simp
  have t1: "A * N * b \<le> t1" "t1 \<le> A * N * a" "0 \<le> t1"
    unfolding t1_def fmul_def N(2) a_def b_def
    using roundFloat64_rel [OF AN] roundFloat64_nonneg [OF AN] by simp_all
  have tL: "0 \<le> t1 + L" using t1(3) assms(1) by simp
  have t2: "(t1 + L) * b \<le> t2" "t2 \<le> (t1 + L) * a" "0 \<le> t2"
    unfolding t2_def fadd_def a_def b_def
    using roundFloat64_rel [OF tL] roundFloat64_nonneg [OF tL] by simp_all
  have tq: "0 \<le> t2 / (N + 1)" using t2(3) N(1) by simp
  have t3: "t2 / (N + 1) * b \<le> t3" "t3 \<le> t2 / (N + 1) * a"
    unfolding t3_def fdiv_def N(3) a_def b_def
    using roundFloat64_rel [OF tq] by simp_all
  have up: "t3 \<le> L * (a ^ (3 * n) * a ^ 3)"
    by (rule avg_step_upper [OF assms(1) N(1) ab(3) hi1 IH(2) t1(2) t2(2) t3(2)])
  have low: "L * (b ^ (3 * n) * b ^ 3) \<le> t3"
    by (rule avg_step_lower [OF assms(1) N(1) ab(1) ab(2) lo1 IH(1) t1(1) t2(1) t3(1)])
  have e: "avgAfter L (Suc n) = t3"
    by (simp add: t3_def t2_def t1_def A_def)
  have p: "3 * Suc n = 3 * n + 3" by simp
  show ?case
    unfolding e p power_add a_def [symmetric] b_def [symmetric] using up low by simp
qed

lemma avgAfter_exact:
  assumes "\<forall>j \<in> {1..Suc n}. roundFloat64 (of_nat j * L) = of_nat j * L"
    and "int (Suc n) < 2 ^ 53"
  shows "avgAfter L n = L"
  using assms
proof (induction n)
  case 0
  then show ?case by simp
next
  case (Suc n)
  from Suc.prems have small: "int (Suc n) < 2 ^ 53" "int (Suc n) + 1 < 2 ^ 53" by simp_all
  have IH: "avgAfter L n = L" using Suc.IH Suc.prems(1) small(1) by simp
  have N: "sqlReal (int (Suc n)) = of_nat (Suc n)" "sqlReal (int (Suc n) + 1) = of_nat (Suc (Suc n))"
    using small by (simp_all add: sqlReal_exact)
  have r1: "roundFloat64 (of_nat (Suc n) * L) = of_nat (Suc n) * L"
    and r2: "roundFloat64 (of_nat (Suc (Suc n)) * L) = of_nat (Suc (Suc n)) * L"
    using Suc.prems(1) by (simp_all del: of_nat_Suc)
  have "(1::nat) \<in> {1..Suc (Suc n)}" by simp
  with Suc.prems(1) have "roundFloat64 (of_nat 1 * L) = of_nat 1 * L" by blast
  then have r3: "roundFloat64 L = L" by simp
  have "fmul L (of_nat (Suc n)) = of_nat (Suc n) * L"
    using r1 by (simp add: fmul_def mult.commute del: of_nat_Suc)
  moreover have "of_nat (Suc n) * L + L = of_nat (Suc (Suc n)) * L" by (simp add: algebra_simps)
  then have "fadd (of_nat (Suc n) * L) L = of_nat (Suc (Suc n)) * L"
    using r2 by (simp add: fadd_def del: of_nat_Suc)
  moreover have "fdiv (of_nat (Suc (Suc n)) * L) (of_nat (Suc (Suc n))) = L"
    using r3 by (simp add: fdiv_def del: of_nat_Suc)
  ultimately show ?case
    unfolding avgAfter.simps IH N by (simp del: of_nat_Suc)
qed


text \<open>
  Claim C6, as amended. \<open>L\<close> is a duration in seconds as the handler measures it: zero,
  or between \<open>2^-30\<close> (less than a nanosecond) and \<open>2^34\<close> (more than \<open>2^63\<close>
  nanoseconds); counts stay below \<open>2^53\<close>. On a channel with no metrics row the first
  record inserts the row with count 1, \<open>latencyAvg = L\<close>, error rate 0 or 1 and success
  count 1 or 0. After \<open>k \<ge> 1\<close> failed records of latency \<open>L\<close> on such a channel, with no
  other activity, the row has error rate exactly 1, request count \<open>k\<close> and success count
  0; its \<open>latencyAvg\<close> is within the accumulated double rounding of \<open>L\<close>, three
  roundings for each record after the first, and it is \<open>L\<close> itself whenever the multiples
  \<open>j * L\<close>, \<open>j \<le> k\<close>, are doubles (as for a whole number of seconds).
\<close>

theorem C6_failures_up_to_rounding:
  assumes "GetChannelMetrics db c = None"
    and "L = 0 \<or> (2 powi (- 30) \<le> L \<and> L \<le> 2 ^ 34)"
    and "int k < 2 ^ 53"
  shows "GetChannelMetrics (UpdateChannelMetrics db c L success) c =
           Some \<lparr>cm_ChannelID = c, cm_LatencyAvg = L,
                 cm_ErrorRate = (if success then 0 else 1),
                 cm_RequestCount = 1,
                 cm_SuccessCount = (if success then 1 else 0)\<rparr>
         \<and> (1 \<le> k \<longrightarrow>
              (\<exists>avg. GetChannelMetrics (((\<lambda>d. UpdateChannelMetrics d c L False) ^^ k) db) c =
                       Some \<lparr>cm_ChannelID = c, cm_LatencyAvg = avg, cm_ErrorRate = 1,
                             cm_RequestCount = int k, cm_SuccessCount = 0\<rparr>
                 \<and> L * (1 - 2 powi (- 53)) ^ (3 * (k - 1)) \<le> avg
                 \<and> avg \<le> L * (1 + 2 powi (- 53)) ^ (3 * (k - 1))
                 \<and> ((\<forall>j \<in> {1..k}. roundFloat64 (of_nat j * L) = of_nat j * L)
                      \<longrightarrow> avg = L)))"
proof (intro conjI impI)
  show "GetChannelMetrics (UpdateChannelMetrics db c L success) c =
           Some \<lparr>cm_ChannelID = c, cm_LatencyAvg = L,
                 cm_ErrorRate = (if success then 0 else 1),
                 cm_RequestCount = 1,
                 cm_SuccessCount = (if success then 1 else 0)\<rparr>"
    using metrics_first_record [OF assms(1), where l = L and s = success]
    by (simp add: boolToInt_def)
next
  assume "1 \<le> k"
  then obtain n where k: "k = Suc n" by (cases k) auto
  have "(0::real) \<le> 2 powi (- 30)" by simp
  with assms(2) have nonneg: "0 \<le> L" by auto
  have small: "int (Suc n) < 2 ^ 53" using assms(3) k by simp
  have row: "GetChannelMetrics (((\<lambda>d. UpdateChannelMetrics d c L False) ^^ k) db) c =
               Some \<lparr>cm_ChannelID = c, cm_LatencyAvg = avgAfter L n, cm_ErrorRate = 1,
                     cm_RequestCount = int k, cm_SuccessCount = 0\<rparr>"
    unfolding k by (rule failures_only [OF assms(1) small])
  have bounds: "L * (1 - 2 powi (- 53)) ^ (3 * (k - 1)) \<le> avgAfter L n"
    "avgAfter L n \<le> L * (1 + 2 powi (- 53)) ^ (3 * (k - 1))"
    using avgAfter_bounds [OF nonneg small] by (simp_all add: k)
  have exact: "(\<forall>j \<in> {1..k}. roundFloat64 (of_nat j * L) = of_nat j * L) \<longrightarrow> avgAfter L n = L"
    unfolding k using avgAfter_exact [OF _ small] by blast
  from row bounds exact
  show "\<exists>avg. GetChannelMetrics (((\<lambda>d. UpdateChannelMetrics d c L False) ^^ k) db) c =
                       Some \<lparr>cm_ChannelID = c, cm_LatencyAvg = avg, cm_ErrorRate = 1,
                             cm_RequestCount = int k, cm_SuccessCount = 0\<rparr>
                 \<and> L * (1 - 2 powi (- 53)) ^ (3 * (k - 1)) \<le> avg
                 \<and> avg \<le> L * (1 + 2 powi (- 53)) ^ (3 * (k - 1))
                 \<and> ((\<forall>j \<in> {1..k}. roundFloat64 (of_nat j * L) = of_nat j * L)
                      \<longrightarrow> avg = L)"
    by blast
qed

theorem C6_witness:
  "GetChannelMetrics New 7 = None
   \<and> GetChannelMetrics (UpdateChannelMetrics New 7 2 True) 7 =
       Some \<lparr>cm_ChannelID = 7, cm_LatencyAvg = 2, cm_ErrorRate = 0,
             cm_RequestCount = 1, cm_SuccessCount = 1\<rparr>
   \<and> (1::nat) \<le> 3
   \<and> GetChannelMetrics (((\<lambda>d. UpdateChannelMetrics d 7 2 False) ^^ 3) New) 7 =
       Some \<lparr>cm_ChannelID = 7, cm_LatencyAvg = 2, cm_ErrorRate = 1,
             cm_RequestCount = 3, cm_SuccessCount = 0\<rparr>"
proof -
  have h: "GetChannelMetrics New 7 = None"
    by (simp add: New_def GetChannelMetrics_def)
  have r: "(2::real) = 0 \<or> (2 powi (- 30) \<le> (2::real) \<and> (2::real) \<le> 2 ^ 34)" "int 3 < 2 ^ 53"
    by (simp_all add: power_int_minus)
  note t = C6_failures_up_to_rounding [OF h r, where success = True]
  have ex: "\<forall>j \<in> {1..3::nat}. roundFloat64 (of_nat j * 2) = of_nat j * 2"
  proof
    fix j :: nat assume "j \<in> {1..3}"
    then have "\<bar>int j * 2\<bar> < 2 ^ 53" by simp
    from roundFloat64_of_int [OF this] show "roundFloat64 (of_nat j * 2) = of_nat j * 2" by simp
  qed
  from t ex have "GetChannelMetrics (((\<lambda>d. UpdateChannelMetrics d 7 2 False) ^^ 3) New) 7 =
       Some \<lparr>cm_ChannelID = 7, cm_LatencyAvg = 2, cm_ErrorRate = 1,
             cm_RequestCount = 3, cm_SuccessCount = 0\<rparr>"
    by auto
  moreover from t have "GetChannelMetrics (UpdateChannelMetrics New 7 2 True) 7 =
       Some \<lparr>cm_ChannelID = 7, cm_LatencyAvg = 2, cm_ErrorRate = 0,
             cm_RequestCount = 1, cm_SuccessCount = 1\<rparr>"
    by simp
  ultimately show ?thesis using h by simp
qed

text \<open>
  The claim as the specification has it, with \<open>latencyAvg = L\<close> for every \<open>k\<close>, does not
  hold of the stored value. With \<open>L\<close> the double nearest to 0.1 and three failed records
  on a fresh channel, the second record leaves \<open>L\<close>; the third computes \<open>L * 2\<close>
  exactly, rounds \<open>L * 2 + L\<close> up to \<open>5404319552844596 / 2^54\<close> and rounds the quotient
  by 3 to \<open>7205759403792795 / 2^56\<close> (0.10000000000000002), one unit in the last place
  above \<open>L = 7205759403792794 / 2^56\<close>.
\<close>

lemma tenth_exact: "roundFloat64 example_latency = example_latency"
  by (rule roundFloat64_exact [where m = 3602879701896397 and j = "- 55"])
     (simp_all add: example_latency_def power_int_minus)

lemma tenth_double: "roundFloat64 (example_latency * 2) = example_latency * 2"
  by (rule roundFloat64_exact [where m = 3602879701896397 and j = "- 54"])
     (simp_all add: example_latency_def power_int_minus)

lemma tenth_triple:
  "roundFloat64 (example_latency * 2 + example_latency) = 5404319552844596 / 18014398509481984"
  by (subst roundFloat64_eval [where e = "- 2"])
     (simp_all add: example_latency_def power_int_minus roundTiesToEven_def Let_def)

lemma tenth_third:
  "roundFloat64 (5404319552844596 / 18014398509481984 / 3)
     = 7205759403792795 / 72057594037927936"
  by (subst roundFloat64_eval [where e = "- 4"])
     (simp_all add: power_int_minus roundTiesToEven_def Let_def)

lemma small_counts: "sqlReal 1 = 1" "sqlReal 2 = 2" "sqlReal 3 = 3"
  using sqlReal_exact [of 1] sqlReal_exact [of 2] sqlReal_exact [of 3] by simp_all

lemma avgAfter_tenth_1: "avgAfter example_latency (Suc 0) = example_latency"
proof -
  have "avgAfter example_latency (Suc 0)
        = roundFloat64 (roundFloat64 (roundFloat64 (example_latency * 1) + example_latency) / 2)"
    by (simp add: fmul_def fadd_def fdiv_def small_counts)
  also have "roundFloat64 (example_latency * 1) = example_latency"
    by (simp add: tenth_exact)
  also have "example_latency + example_latency = example_latency * 2" by simp
  also have "roundFloat64 (example_latency * 2) / 2 = example_latency"
    by (simp add: tenth_double)
  finally show ?thesis by (simp only: tenth_exact)
qed

lemma avgAfter_tenth_2:
  "avgAfter example_latency (Suc (Suc 0)) = 7205759403792795 / 72057594037927936"
proof -
  have "avgAfter example_latency (Suc (Suc 0))
        = roundFloat64 (roundFloat64
            (roundFloat64 (avgAfter example_latency (Suc 0) * 2) + example_latency) / 3)"
    unfolding avgAfter.simps(2) [of _ "Suc 0"] fmul_def fadd_def fdiv_def
    by (simp add: small_counts del: avgAfter.simps)
  also have "\<dots> = 7205759403792795 / 72057594037927936"
    by (simp only: avgAfter_tenth_1 tenth_double tenth_triple tenth_third)
  finally show ?thesis .
qed

theorem C6_counterexample:
  "map_option cm_LatencyAvg
     (GetChannelMetrics (((\<lambda>d. UpdateChannelMetrics d 1 example_latency False) ^^ 3) New) 1)
     = Some (7205759403792795 / 72057594037927936)
   \<and> example_latency = 7205759403792794 / 72057594037927936
   \<and> roundFloat64 example_latency = example_latency"
proof -
  have h: "GetChannelMetrics New 1 = None"
    by (simp add: New_def GetChannelMetrics_def)
  have "GetChannelMetrics (((\<lambda>d. UpdateChannelMetrics d 1 example_latency False) ^^ Suc 2) New) 1
        = Some \<lparr>cm_ChannelID = 1, cm_LatencyAvg = avgAfter example_latency 2, cm_ErrorRate = 1,
                cm_RequestCount = int (Suc 2), cm_SuccessCount = 0\<rparr>"
    by (rule failures_only [OF h]) simp
  then have "map_option cm_LatencyAvg
     (GetChannelMetrics (((\<lambda>d. UpdateChannelMetrics d 1 example_latency False) ^^ 3) New) 1)
     = Some (7205759403792795 / 72057594037927936)"
    by (simp add: avgAfter_tenth_2 numeral_3_eq_3 numeral_2_eq_2 del: avgAfter.simps)
  moreover have "example_latency = 7205759403792794 / 72057594037927936"
    by (simp add: example_latency_def)
  ultimately show ?thesis using tenth_exact by simp
qed


text \<open>
  Claim C8. For every channel and latencies \<open>L1\<close>, \<open>L2\<close>, from any stored state:
  \<open>record(c, L1, true); reset(c); record(c, L2, true)\<close> leaves the channel's metrics with
  latency average \<open>L2\<close>, error rate 0 and request count 1 (and success count 1): the
  reset erases the history and the next record is a first record.
\<close>

theorem C8_record_reset_record:
  "GetChannelMetrics
     (UpdateChannelMetrics (ResetChannelMetrics (UpdateChannelMetrics db c L1 True) c) c L2 True) c
   = Some \<lparr>cm_ChannelID = c, cm_LatencyAvg = L2, cm_ErrorRate = 0,
           cm_RequestCount = 1, cm_SuccessCount = 1\<rparr>"
proof -
  have "GetChannelMetrics (ResetChannelMetrics (UpdateChannelMetrics db c L1 True) c) c = None"
    by (rule metrics_after_reset)
  from metrics_first_record [OF this, where l = L2 and s = True]
  show ?thesis by (simp add: boolToInt_def)
qed

text \<open>
  Claim C9. A channel created through \<open>Manager.Create\<close> and a binding created through
  \<open>AddModelChannel\<close> are stored with a strictly positive weight: the row appended to the
  table carries weight 10 when the request's weight is \<open>\<le> 0\<close> (the zero default
  included) and the request's weight otherwise, so tables whose rows all have positive
  weight keep that property.
\<close>

theorem C9_stored_weight_positive:
  "(Manager_Create db req = (Inr ch, db') \<longrightarrow>
      channels db' = channels db @ [ch]
      \<and> ch_Weight ch = (if cr_Weight req \<le> 0 then 10 else cr_Weight req)
      \<and> 0 < ch_Weight ch
      \<and> ((\<forall>x \<in> set (channels db). 0 < ch_Weight x) \<longrightarrow>
           (\<forall>x \<in> set (channels db'). 0 < ch_Weight x)))
   \<and> (AddModelChannel db mc = (Inr r, db'') \<longrightarrow>
      model_channels db'' = model_channels db @ [r]
      \<and> mc_Weight r = (if mc_Weight mc \<le> 0 then 10 else mc_Weight mc)
      \<and> 0 < mc_Weight r
      \<and> ((\<forall>x \<in> set (model_channels db). 0 < mc_Weight x) \<longrightarrow>
           (\<forall>x \<in> set (model_channels db''). 0 < mc_Weight x)))"
proof (intro conjI impI)
  assume a: "Manager_Create db req = (Inr ch, db')"
  then show tab: "channels db' = channels db @ [ch]"
    by (auto simp: Manager_Create_def CreateChannel_def Let_def split: if_splits)
  from a show w: "ch_Weight ch = (if cr_Weight req \<le> 0 then 10 else cr_Weight req)"
    by (auto simp: Manager_Create_def CreateChannel_def Let_def split: if_splits)
  then show pos: "0 < ch_Weight ch" by (simp split: if_splits)
  assume "\<forall>x \<in> set (channels db). 0 < ch_Weight x"
  then show "\<forall>x \<in> set (channels db'). 0 < ch_Weight x" using tab pos by auto
next
  assume a: "AddModelChannel db mc = (Inr r, db'')"
  then show tab: "model_channels db'' = model_channels db @ [r]"
    by (auto simp: AddModelChannel_def Let_def split: if_splits)
  from a show w: "mc_Weight r = (if mc_Weight mc \<le> 0 then 10 else mc_Weight mc)"
    by (auto simp: AddModelChannel_def Let_def split: if_splits)
  then show pos: "0 < mc_Weight r" by (simp split: if_splits)
  assume "\<forall>x \<in> set (model_channels db). 0 < mc_Weight x"
  then show "\<forall>x \<in> set (model_channels db''). 0 < mc_Weight x" using tab pos by auto
qed

theorem C9_witness:
  "Manager_Create New
       \<lparr>cr_Name = ''a'', cr_BaseURL = ''u'', cr_APIKey = ''k'', cr_Weight = 0, cr_Enabled = True\<rparr>
     = (Inr \<lparr>ch_ID = 1, ch_Name = ''a'', ch_BaseURL = ''u'', ch_APIKey = ''k'',
              ch_Weight = 10, ch_Enabled = True\<rparr>,
        New\<lparr>channels := [\<lparr>ch_ID = 1, ch_Name = ''a'', ch_BaseURL = ''u'', ch_APIKey = ''k'',
                             ch_Weight = 10, ch_Enabled = True\<rparr>],
            channels_seq := 1\<rparr>)
   \<and> AddModelChannel New
       \<lparr>mc_ID = 0, mc_ModelID = 1, mc_ChannelID = 1, mc_BackendModelName = ''b'', mc_Weight = - 3\<rparr>
     = (Inr \<lparr>mc_ID = 1, mc_ModelID = 1, mc_ChannelID = 1, mc_BackendModelName = ''b'',
              mc_Weight = 10\<rparr>,
        New\<lparr>model_channels := [\<lparr>mc_ID = 1, mc_ModelID = 1, mc_ChannelID = 1,
                                   mc_BackendModelName = ''b'', mc_Weight = 10\<rparr>],
            model_channels_seq := 1\<rparr>)
   \<and> list_all (\<lambda>x. 0 < ch_Weight x)
        (channels (New\<lparr>channels :=
            [\<lparr>ch_ID = 1, ch_Name = ''a'', ch_BaseURL = ''u'', ch_APIKey = ''k'',
              ch_Weight = 10, ch_Enabled = True\<rparr>], channels_seq := 1\<rparr>))
   \<and> list_all (\<lambda>x. 0 < mc_Weight x)
        (model_channels (New\<lparr>model_channels :=
            [\<lparr>mc_ID = 1, mc_ModelID = 1, mc_ChannelID = 1,
              mc_BackendModelName = ''b'', mc_Weight = 10\<rparr>], model_channels_seq := 1\<rparr>))"
proof -
  have a: "Manager_Create New
       \<lparr>cr_Name = ''a'', cr_BaseURL = ''u'', cr_APIKey = ''k'', cr_Weight = 0, cr_Enabled = True\<rparr>
     = (Inr \<lparr>ch_ID = 1, ch_Name = ''a'', ch_BaseURL = ''u'', ch_APIKey = ''k'',
              ch_Weight = 10, ch_Enabled = True\<rparr>,
        New\<lparr>channels := [\<lparr>ch_ID = 1, ch_Name = ''a'', ch_BaseURL = ''u'', ch_APIKey = ''k'',
                             ch_Weight = 10, ch_Enabled = True\<rparr>],
            channels_seq := 1\<rparr>)"
    by (simp add: Manager_Create_def CreateChannel_def New_def Let_def)
  have b: "AddModelChannel New
       \<lparr>mc_ID = 0, mc_ModelID = 1, mc_ChannelID = 1, mc_BackendModelName = ''b'', mc_Weight = - 3\<rparr>
     = (Inr \<lparr>mc_ID = 1, mc_ModelID = 1, mc_ChannelID = 1, mc_BackendModelName = ''b'',
              mc_Weight = 10\<rparr>,
        New\<lparr>model_channels := [\<lparr>mc_ID = 1, mc_ModelID = 1, mc_ChannelID = 1,
                                   mc_BackendModelName = ''b'', mc_Weight = 10\<rparr>],
            model_channels_seq := 1\<rparr>)"
    by (simp add: AddModelChannel_def New_def Let_def)
  have c: "\<forall>x \<in> set (channels New). 0 < ch_Weight x"
    by (simp add: New_def)
  have d: "\<forall>x \<in> set (model_channels New). 0 < mc_Weight x"
    by (simp add: New_def)
  note t = C9_stored_weight_positive
         [where db = New
            and req = "\<lparr>cr_Name = ''a'', cr_BaseURL = ''u'', cr_APIKey = ''k'',
                        cr_Weight = 0, cr_Enabled = True\<rparr>"
            and ch = "\<lparr>ch_ID = 1, ch_Name = ''a'', ch_BaseURL = ''u'', ch_APIKey = ''k'',
                       ch_Weight = 10, ch_Enabled = True\<rparr>"
            and db' = "New\<lparr>channels :=
                         [\<lparr>ch_ID = 1, ch_Name = ''a'', ch_BaseURL = ''u'', ch_APIKey = ''k'',
                           ch_Weight = 10, ch_Enabled = True\<rparr>], channels_seq := 1\<rparr>"
            and mc = "\<lparr>mc_ID = 0, mc_ModelID = 1, mc_ChannelID = 1,
                       mc_BackendModelName = ''b'', mc_Weight = - 3\<rparr>"
            and r = "\<lparr>mc_ID = 1, mc_ModelID = 1, mc_ChannelID = 1,
                      mc_BackendModelName = ''b'', mc_Weight = 10\<rparr>"
            and db'' = "New\<lparr>model_channels :=
                          [\<lparr>mc_ID = 1, mc_ModelID = 1, mc_ChannelID = 1,
                            mc_BackendModelName = ''b'', mc_Weight = 10\<rparr>],
                          model_channels_seq := 1\<rparr>"]
  have e: "\<forall>x \<in> set (channels (New\<lparr>channels :=
            [\<lparr>ch_ID = 1, ch_Name = ''a'', ch_BaseURL = ''u'', ch_APIKey = ''k'',
              ch_Weight = 10, ch_Enabled = True\<rparr>], channels_seq := 1\<rparr>)). 0 < ch_Weight x"
    using t a c by blast
  have f: "\<forall>x \<in> set (model_channels (New\<lparr>model_channels :=
            [\<lparr>mc_ID = 1, mc_ModelID = 1, mc_ChannelID = 1,
              mc_BackendModelName = ''b'', mc_Weight = 10\<rparr>], model_channels_seq := 1\<rparr>)).
             0 < mc_Weight x"
    using t b d by blast
  from a b e f show ?thesis unfolding list_all_iff by (intro conjI)
qed


section \<open>Evaluating the example store\<close>

lemmas example_defs = example_db_def example_c1_def example_c2_def example_s1_def example_s2_def
  example_db1_def example_db2_def example_m1_def example_m2_def

lemmas route_defs = Route_def stickyPhase_def selectionPhase_def GetSessionByUser_def
  GetModelByName_def GetModelChannelsByModel_def GetModelChannelsByChannel_def GetChannel_def
  selectBestMapping_def CreateSession_def UpdateSessionLastUsed_def Let_def

lemma route_first: "Route 100 u example_db 7 ''gpt-4'' =
   (Inr \<lparr>rr_Channel = example_c1, rr_BackendModelName = ''x'', rr_SessionID = 1,
         rr_IsNew = True\<rparr>, example_db1)"
  by (simp add: route_defs example_defs)

lemma route_second: "Route 200 u example_db1 7 ''gpt-3.5'' =
   (Inr \<lparr>rr_Channel = example_c2, rr_BackendModelName = ''y'', rr_SessionID = 2,
         rr_IsNew = True\<rparr>, example_db2)"
  by (simp add: route_defs example_defs)

lemma route_third: "Route 300 u example_db2 7 ''gpt-4'' =
   (Inl (UniqueConstraint ''sessions.user_id, sessions.channel_id''), example_db2)"
  by (simp add: route_defs example_defs)


section \<open>Weighted selection\<close>

text \<open>
  Metrics rows are written by \<open>UpdateChannelMetrics\<close> only, with a measured duration as
  the latency: a latency average is never negative.
\<close>

lemma metrics_update_nonneg:
  assumes "0 \<le> latency" "0 \<le> cm_LatencyAvg m" "0 \<le> cm_RequestCount m"
  shows "0 \<le> cm_LatencyAvg (metrics_update latency success m)
         \<and> 0 \<le> cm_RequestCount (metrics_update latency success m)"
proof -
  have n: "0 \<le> sqlReal (cm_RequestCount m)" "0 \<le> sqlReal (cm_RequestCount m + 1)"
    unfolding sqlReal_def using assms(3) by (simp_all add: roundFloat64_nonneg)
  have "0 \<le> fmul (cm_LatencyAvg m) (sqlReal (cm_RequestCount m))"
    unfolding fmul_def using assms(2) n(1) by (intro roundFloat64_nonneg mult_nonneg_nonneg)
  then have "0 \<le> fadd (fmul (cm_LatencyAvg m) (sqlReal (cm_RequestCount m))) latency"
    unfolding fadd_def using assms(1) by (intro roundFloat64_nonneg add_nonneg_nonneg)
  then have "0 \<le> fdiv (fadd (fmul (cm_LatencyAvg m) (sqlReal (cm_RequestCount m))) latency)
                        (sqlReal (cm_RequestCount m + 1))"
    unfolding fdiv_def using n(2) by (intro roundFloat64_nonneg divide_nonneg_nonneg)
  then show ?thesis using assms(3) by (simp add: metrics_update_def)
qed

lemma latency_nonneg_preserved:
  assumes "0 \<le> latency"
    and "\<forall>m \<in> set (channel_metrics db). 0 \<le> cm_LatencyAvg m \<and> 0 \<le> cm_RequestCount m"
  shows "\<forall>m \<in> set (channel_metrics (UpdateChannelMetrics db c latency success)).
           0 \<le> cm_LatencyAvg m \<and> 0 \<le> cm_RequestCount m"
proof (cases "GetChannelMetrics db c")
  case None
  then show ?thesis using assms by (auto simp: UpdateChannelMetrics_def)
next
  case (Some r)
  then show ?thesis
    using assms metrics_update_nonneg [OF assms(1), where success = success]
    by (auto simp: UpdateChannelMetrics_def)
qed












section \<open>Sticky routing\<close>

lemma most_recent_mem: "most_recent xs = Some t \<Longrightarrow> t \<in> set xs"
  by (induction xs arbitrary: t) (auto split: option.splits if_splits)

lemma most_recent_strict:
  "s \<in> set xs \<Longrightarrow> \<forall>t \<in> set xs. t = s \<or> se_LastUsedAt t < se_LastUsedAt s \<Longrightarrow>
   most_recent xs = Some s"
proof (induction xs)
  case Nil
  then show ?case by simp
next
  case (Cons x xs)
  show ?case
  proof (cases "s \<in> set xs")
    case True
    with Cons have "most_recent xs = Some s" by simp
    moreover have "x = s \<or> se_LastUsedAt x < se_LastUsedAt s" using Cons.prems by simp
    ultimately show ?thesis by auto
  next
    case False
    with Cons.prems have x: "x = s" by simp
    show ?thesis
    proof (cases "most_recent xs")
      case None
      then show ?thesis by (simp add: x)
    next
      case (Some t)
      then have "t \<in> set xs" by (rule most_recent_mem)
      with Cons.prems False have "se_LastUsedAt t < se_LastUsedAt s" by auto
      then show ?thesis using Some by (simp add: x)
    qed
  qed
qed

lemma find_key:
  "x \<in> set xs \<Longrightarrow> distinct (map f xs) \<Longrightarrow> find (\<lambda>y. f y = f x) xs = Some x"
  by (induction xs) (auto simp: image_iff)

lemma find_filter_conj: "find P (filter Q xs) = find (\<lambda>x. Q x \<and> P x) xs"
  by (induction xs) auto

lemma find_map_touch:
  "x \<in> set xs \<Longrightarrow> distinct (map f xs) \<Longrightarrow> (\<And>y. f (g y) = f y) \<Longrightarrow>
   find (\<lambda>y. f y = f x) (map (\<lambda>y. if f y = f x then g y else y) xs) = Some (g x)"
  by (induction xs) (auto simp: image_iff)

text \<open>
  Claim C4, as amended. Let \<open>s\<close> be the session of user \<open>U\<close> with the strictly largest
  \<open>lastUsedAt\<close>, pointing to an existing, enabled channel \<open>c\<close> that is bound to the model
  named \<open>M\<close> with backend name \<open>B\<close>, in a store that satisfies the schema's uniqueness
  constraints. Then \<open>route(U, M)\<close> returns \<open>(c, B, s.ID, isNew = false)\<close>, touches no
  other row, and sets the session's \<open>lastUsedAt\<close> to the current timestamp \<open>now\<close>
  (one-second resolution): the value grows only if the clock has moved on.
\<close>

theorem C4_sticky_route:
  assumes s: "s \<in> set (sessions db)" "se_UserID s = U"
    and recent: "\<forall>t \<in> set (sessions db). se_UserID t = U \<longrightarrow>
                   t = s \<or> se_LastUsedAt t < se_LastUsedAt s"
    and su: "distinct (map se_ID (sessions db))"
    and c: "c \<in> set (channels db)" "ch_ID c = se_ChannelID s" "ch_Enabled c"
    and cu: "distinct (map ch_ID (channels db))"
    and m: "m \<in> set (models db)" "md_Name m = M"
    and mu: "distinct (map md_Name (models db))"
    and b: "b \<in> set (model_channels db)" "mc_ModelID b = md_ID m" "mc_ChannelID b = ch_ID c"
           "mc_BackendModelName b = B"
    and bu: "distinct (map (\<lambda>x. (mc_ModelID x, mc_ChannelID x)) (model_channels db))"
  shows "Route now u db U M =
           (Inr \<lparr>rr_Channel = c, rr_BackendModelName = B, rr_SessionID = se_ID s,
                 rr_IsNew = False\<rparr>,
            db\<lparr>sessions := map (\<lambda>t. if se_ID t = se_ID s then t\<lparr>se_LastUsedAt := now\<rparr> else t)
                               (sessions db)\<rparr>)
         \<and> GetSession (snd (Route now u db U M)) (se_ID s) = Some (s\<lparr>se_LastUsedAt := now\<rparr>)"
proof -
  have "s \<in> set (filter (\<lambda>t. se_UserID t = U) (sessions db))" using s by simp
  moreover have "\<forall>t \<in> set (filter (\<lambda>t. se_UserID t = U) (sessions db)).
                   t = s \<or> se_LastUsedAt t < se_LastUsedAt s"
    using recent by simp
  ultimately have gs: "GetSessionByUser db U = Some s"
    unfolding GetSessionByUser_def by (rule most_recent_strict)
  have gc: "GetChannel db (se_ChannelID s) = Some c"
    unfolding GetChannel_def c(2) [symmetric] by (rule find_key [OF c(1) cu])
  have gm: "GetModelByName db M = Some m"
    unfolding GetModelByName_def m(2) [symmetric] by (rule find_key [OF m(1) mu])
  have "find (\<lambda>mc. mc_ModelID mc = md_ID m) (GetModelChannelsByChannel db (ch_ID c))
        = find (\<lambda>x. (mc_ModelID x, mc_ChannelID x) = (mc_ModelID b, mc_ChannelID b))
               (model_channels db)"
    unfolding GetModelChannelsByChannel_def find_filter_conj
    by (rule arg_cong [where f = "\<lambda>P. find P (model_channels db)"]) (auto simp: b)
  also have "\<dots> = Some b" by (rule find_key [OF b(1) bu])
  finally have gb: "find (\<lambda>mc. mc_ModelID mc = md_ID m) (GetModelChannelsByChannel db (ch_ID c))
        = Some b" .
  have st: "stickyPhase db U M = Some (c, b, s)"
    by (simp add: stickyPhase_def gs gc gm gb c(3))
  have r: "Route now u db U M =
           (Inr \<lparr>rr_Channel = c, rr_BackendModelName = B, rr_SessionID = se_ID s,
                 rr_IsNew = False\<rparr>,
            db\<lparr>sessions := map (\<lambda>t. if se_ID t = se_ID s then t\<lparr>se_LastUsedAt := now\<rparr> else t)
                               (sessions db)\<rparr>)"
    by (simp add: Route_def st b(4) UpdateSessionLastUsed_def)
  have "find (\<lambda>t. se_ID t = se_ID s)
          (map (\<lambda>t. if se_ID t = se_ID s then t\<lparr>se_LastUsedAt := now\<rparr> else t) (sessions db))
        = Some (s\<lparr>se_LastUsedAt := now\<rparr>)"
    by (rule find_map_touch [OF s(1) su]) simp
  then have "GetSession (snd (Route now u db U M)) (se_ID s) = Some (s\<lparr>se_LastUsedAt := now\<rparr>)"
    by (simp add: r GetSession_def)
  with r show ?thesis by simp
qed

theorem C4_witness:
  "Route 160 0 example_db1 7 ''gpt-4'' =
     (Inr \<lparr>rr_Channel = example_c1, rr_BackendModelName = ''x'', rr_SessionID = 1,
           rr_IsNew = False\<rparr>,
      example_db1\<lparr>sessions := [example_s1\<lparr>se_LastUsedAt := 160\<rparr>]\<rparr>)
   \<and> GetSession (snd (Route 160 0 example_db1 7 ''gpt-4'')) 1
       = Some (example_s1\<lparr>se_LastUsedAt := 160\<rparr>)"
proof -
  note t = C4_sticky_route [where db = example_db1 and s = example_s1 and U = 7 and c = example_c1
      and m = "\<lparr>md_ID = 1, md_Name = ''gpt-4''\<rparr>" and M = "''gpt-4''"
      and b = "\<lparr>mc_ID = 1, mc_ModelID = 1, mc_ChannelID = 1, mc_BackendModelName = ''x'',
                 mc_Weight = 1\<rparr>"
      and B = "''x''" and now = 160 and u = 0]
  have "Route 160 0 example_db1 7 ''gpt-4'' =
           (Inr \<lparr>rr_Channel = example_c1, rr_BackendModelName = ''x'',
                 rr_SessionID = se_ID example_s1, rr_IsNew = False\<rparr>,
            example_db1\<lparr>sessions :=
               map (\<lambda>t. if se_ID t = se_ID example_s1 then t\<lparr>se_LastUsedAt := 160\<rparr> else t)
                   (sessions example_db1)\<rparr>)
         \<and> GetSession (snd (Route 160 0 example_db1 7 ''gpt-4'')) (se_ID example_s1)
             = Some (example_s1\<lparr>se_LastUsedAt := 160\<rparr>)"
    by (rule t) (simp_all add: example_defs)
  moreover have "se_ID example_s1 = 1" "sessions example_db1 = [example_s1]"
    by (simp_all add: example_defs)
  ultimately show ?thesis by (simp add: GetSession_def)
qed

text \<open>
  The claim as stated fails: two calls in the same second. The first creates the session
  at time 100, the second, at time 100 again, takes the sticky path and leaves
  \<open>lastUsedAt\<close> at 100.
\<close>

theorem C4_counterexample:
  "Route 100 0 example_db 7 ''gpt-4'' =
     (Inr \<lparr>rr_Channel = example_c1, rr_BackendModelName = ''x'', rr_SessionID = 1,
           rr_IsNew = True\<rparr>, example_db1)
   \<and> Route 100 0 example_db1 7 ''gpt-4'' =
     (Inr \<lparr>rr_Channel = example_c1, rr_BackendModelName = ''x'', rr_SessionID = 1,
           rr_IsNew = False\<rparr>, example_db1)
   \<and> map_option se_LastUsedAt (GetSession example_db1 1) = Some 100
   \<and> map_option se_LastUsedAt (GetSession (snd (Route 100 0 example_db1 7 ''gpt-4'')) 1) = Some 100"
proof -
  have a: "Route 100 0 example_db1 7 ''gpt-4'' =
     (Inr \<lparr>rr_Channel = example_c1, rr_BackendModelName = ''x'', rr_SessionID = 1,
           rr_IsNew = False\<rparr>, example_db1)"
    by (simp add: route_defs example_defs)
  have b: "map_option se_LastUsedAt (GetSession example_db1 1) = Some 100"
    by (simp add: GetSession_def example_defs)
  from route_first [of 0] a b show ?thesis by simp
qed


lemma CreateSession_existing:
  "(userID, channelID) \<in> set (map (\<lambda>s. (se_UserID s, se_ChannelID s)) (sessions db)) \<Longrightarrow>
   CreateSession now db userID channelID
     = (Inl (UniqueConstraint ''sessions.user_id, sessions.channel_id''), db)"
  by (simp add: CreateSession_def)

text \<open>
  Claim C7 (session record of the selection phase). User 7 asks for \<open>gpt-4\<close> (served by
  channel 1 only), then for \<open>gpt-3.5\<close> (served by channel 2 only), then for \<open>gpt-4\<close>
  again. The third call finds the session to channel 2 most recent, falls through to the
  selection phase, chooses channel 1, and the plain \<open>INSERT\<close> of \<open>CreateSession\<close> fails on
  \<open>UNIQUE(user_id, channel_id)\<close> against the older session: \<open>Route\<close> returns the error
  and changes nothing, where the claim has it refresh the session and succeed.
\<close>

theorem C7_route_fails_on_existing_session:
  "Route 100 u example_db 7 ''gpt-4'' =
     (Inr \<lparr>rr_Channel = example_c1, rr_BackendModelName = ''x'', rr_SessionID = 1,
           rr_IsNew = True\<rparr>, example_db1)
   \<and> Route 200 u example_db1 7 ''gpt-3.5'' =
     (Inr \<lparr>rr_Channel = example_c2, rr_BackendModelName = ''y'', rr_SessionID = 2,
           rr_IsNew = True\<rparr>, example_db2)
   \<and> Route 300 u example_db2 7 ''gpt-4'' =
     (Inl (UniqueConstraint ''sessions.user_id, sessions.channel_id''), example_db2)"
  using route_first [of u] route_second [of u] route_third [of u] by (intro conjI)


section \<open>Request binding\<close>

lemma lower_role: "foldName ''role'' = ''role''" by (simp add: lowerChar_def)
lemma lower_content: "foldName ''content'' = ''content''" by (simp add: lowerChar_def)
lemma lower_model: "foldName ''model'' = ''model''" by (simp add: lowerChar_def)
lemma lower_messages: "foldName ''messages'' = ''messages''" by (simp add: lowerChar_def)
lemma lower_stream: "foldName ''stream'' = ''stream''" by (simp add: lowerChar_def)
lemma lower_temperature: "foldName ''temperature'' = ''temperature''" by (simp add: lowerChar_def)

lemma fold_long_s:
  "foldName [CHR ''m'', CHR ''e'', CHR 0xC5, CHR 0xBF, CHR 0xC5, CHR 0xBF, CHR ''a'', CHR ''g'',
             CHR ''e'', CHR ''s''] = ''messages''"
  by (simp add: lowerChar_def)

lemma fold_kelvin: "foldName [CHR 0xE2, CHR 0x84, CHR 0xAA] = ''k''"
  by simp

declare foldName.simps [simp del]

lemmas lower_simps = lower_role lower_content lower_model lower_messages lower_stream
  lower_temperature

lemma decodeMessage_marshal: "decodeMessage (marshalMessage m) = Inr m"
  by (simp add: decodeMessage_def marshalMessage_def lower_simps)

lemma decodeMessages_marshal: "decodeMessages (map marshalMessage ms) = Inr ms"
  by (induction ms) (simp_all add: decodeMessage_marshal)

lemma decodeRequest_marshal: "decodeRequest (marshalRequest r) = Inr r"
  by (cases "rq_Messages r"; cases "rq_Stream r")
     (simp_all add: decodeRequest_def marshalRequest_def lower_simps decodeMessages_marshal)


lemma bind_example: "ShouldBindJSON (Some example_body) = Inr example_request"
  by (simp add: ShouldBindJSON_def decodeRequest_def decodeMessage_def example_body_def
        example_message_def example_request_def lower_simps)

lemma bind_example_no_model: "ShouldBindJSON (Some example_body_no_model) = Inl BindingError"
  by (simp add: ShouldBindJSON_def decodeRequest_def decodeMessage_def example_body_no_model_def
        example_message_def lower_simps)

lemma forward_example:
  "forwardRequest backend example_c1 ''x'' example_request =
     ((case backend example_outbound of
         TransportFailure \<Rightarrow> Some TransportError
       | HttpReply code ok \<Rightarrow>
           if code = 200 then (if ok then None else Some DecodeError) else Some BackendError),
      example_outbound)"
  by (simp add: forwardRequest_def example_request_def example_outbound_def example_c1_def
        marshalRequest_def marshalMessage_def example_message_def Let_def)

lemma example_fields:
  "rq_Model example_request = ''gpt-4''" "rq_Stream example_request = False"
  "ch_ID example_c1 = 1" "ch_Name example_c1 = ''c1''"
  by (simp_all add: example_request_def example_c1_def)

lemma handler_example_ok:
  "ChatCompletions (\<lambda>_. HttpReply 200 True) 100 0 1 (Some 7) (Some example_body) example_server
   = ((JSON 200, Some example_outbound),
      example_server\<lparr>sv_db := UpdateChannelMetrics example_db1 1 1 True,
                     sv_prometheus := [ChannelLatencyObserve ''c1'' ''gpt-4'' 1]\<rparr>)"
  by (simp add: ChatCompletions_def bind_example route_first forward_example
        example_server_def example_fields RecordChannelLatency_def RecordChannelError_def Let_def)

lemma handler_example_fail:
  "ChatCompletions (\<lambda>_. TransportFailure) 100 0 1 (Some 7) (Some example_body) example_server
   = ((JSON 502, Some example_outbound),
      example_server\<lparr>sv_db := UpdateChannelMetrics example_db1 1 1 False,
                       sv_prometheus := [ChannelLatencyObserve ''c1'' ''gpt-4'' 1,
                                         ErrorCounterInc ''channel'' ''c1'']\<rparr>)"
  by (simp add: ChatCompletions_def bind_example route_first forward_example
        example_server_def example_fields RecordChannelLatency_def RecordChannelError_def Let_def)

lemma decode_keeps_model:
  "decodeRequestFields kvs r = Inr r' \<Longrightarrow> \<forall>k \<in> set (map fst kvs). foldName k \<noteq> ''model'' \<Longrightarrow>
   rq_Model r' = rq_Model r"
  by (induction kvs r rule: decodeRequestFields.induct)
     (auto split: if_splits json.splits sum.splits)

lemma decode_keeps_messages:
  "decodeRequestFields kvs r = Inr r' \<Longrightarrow> \<forall>k \<in> set (map fst kvs). foldName k \<noteq> ''messages'' \<Longrightarrow>
   rq_Messages r' = rq_Messages r"
  by (induction kvs r rule: decodeRequestFields.induct)
     (auto split: if_splits json.splits sum.splits)

lemma bind_fails:
  assumes "(\<forall>k \<in> set (map fst kvs). foldName k \<noteq> ''model'')
           \<or> (\<forall>k \<in> set (map fst kvs). foldName k \<noteq> ''messages'')"
  shows "\<exists>e. ShouldBindJSON (Some (JObject kvs)) = Inl e"
proof (cases "decodeRequestFields kvs \<lparr>rq_Model = [], rq_Messages = None, rq_Stream = False\<rparr>")
  case (Inl e)
  then show ?thesis by (simp add: ShouldBindJSON_def decodeRequest_def)
next
  case (Inr req)
  from assms have "rq_Model req = [] \<or> rq_Messages req = None"
    using decode_keeps_model [OF Inr] decode_keeps_messages [OF Inr] by auto
  then show ?thesis using Inr by (auto simp: ShouldBindJSON_def decodeRequest_def)
qed

text \<open>
  Claim C10. For every authenticated \<open>POST /v1/chat/completions\<close> whose JSON object has
  no \<open>model\<close> member or no \<open>messages\<close> member (names compared as the decoder does, by
  \<open>foldName\<close>: letter case is ignored, and the long s and the Kelvin sign count as
  \<open>s\<close> and \<open>k\<close>), the handler answers 400 and returns before routing: no outbound
  request is made and the state is the one before the call, so no session is created or
  touched, no row of \<open>channel_metrics\<close> is written and no Prometheus collector is
  touched by the handler.
\<close>

theorem C10_missing_field_rejected:
  assumes "(\<forall>k \<in> set (map fst kvs). foldName k \<noteq> ''model'')
           \<or> (\<forall>k \<in> set (map fst kvs). foldName k \<noteq> ''messages'')"
  shows "ChatCompletions backend now u duration (Some uid) (Some (JObject kvs)) srv
           = ((JSON 400, None), srv)"
proof -
  from bind_fails [OF assms] obtain e where "ShouldBindJSON (Some (JObject kvs)) = Inl e" ..
  then show ?thesis by (simp add: ChatCompletions_def)
qed


theorem C10_witness:
  "list_all (\<lambda>k. foldName k \<noteq> ''model'') (map fst (members example_body_no_model))
   \<and> ChatCompletions (\<lambda>_. HttpReply 200 True) 100 0 1 (Some 7) (Some example_body_no_model)
        example_server
     = ((JSON 400, None), example_server)"
proof -
  have h: "(\<forall>k \<in> set (map fst [(''messages'', JArray [example_message])]).
              foldName k \<noteq> ''model'')
           \<or> (\<forall>k \<in> set (map fst [(''messages'', JArray [example_message])]).
              foldName k \<noteq> ''messages'')"
    by (simp add: lower_simps)
  note t = C10_missing_field_rejected [OF h, where backend = "\<lambda>_. HttpReply 200 True" and now = 100 and u = 0
      and duration = 1 and uid = 7 and srv = example_server]
  have "list_all (\<lambda>k. foldName k \<noteq> ''model'') (map fst (members example_body_no_model))"
    by (simp add: example_body_no_model_def members_def lower_simps)
  with t show ?thesis by (simp add: example_body_no_model_def)
qed

text \<open>
  A member named with the long s is a \<open>messages\<close> member for the decoder: this body is
  bound like the example body, and is outside the hypothesis of C10.
\<close>

lemma bind_long_s:
  "ShouldBindJSON (Some (JObject
      [(''model'', JString ''gpt-4''),
       ([CHR ''m'', CHR ''e'', CHR 0xC5, CHR 0xBF, CHR 0xC5, CHR 0xBF, CHR ''a'', CHR ''g'',
         CHR ''e'', CHR ''s''], JArray [example_message])]))
     = Inr example_request"
  by (simp add: ShouldBindJSON_def decodeRequest_def decodeMessage_def
        example_message_def example_request_def lower_simps fold_long_s)

text \<open>
  Around the handler, the middleware counts the rejected request like every other HTTP
  request: one increment of the request counter, one observation of the request
  duration, and one increment of the error counter with type \<open>http\<close>, the status being
  400. Nothing else of the state changes.
\<close>

lemma rejected_request_counted:
  assumes "(\<forall>k \<in> set (map fst kvs). foldName k \<noteq> ''model'')
           \<or> (\<forall>k \<in> set (map fst kvs). foldName k \<noteq> ''messages'')"
  shows "Middleware StatusText method fullPath elapsed 400
           (snd (ChatCompletions backend now u duration (Some uid) (Some (JObject kvs)) srv))
         = srv\<lparr>sv_prometheus := sv_prometheus srv
                 @ [RequestCounterInc method fullPath (StatusText 400),
                    RequestDurationObserve method fullPath elapsed,
                    ErrorCounterInc ''http'' '''']\<rparr>"
proof -
  from bind_fails [OF assms] obtain e where "ShouldBindJSON (Some (JObject kvs)) = Inl e" ..
  then show ?thesis by (simp add: ChatCompletions_def Middleware_def)
qed

section \<open>The forwarded body\<close>

lemma marshal_names:
  "set (map fst (members (marshalRequest r))) \<subseteq> {''model'', ''messages'', ''stream''}"
  by (auto simp: marshalRequest_def members_def)

lemma forwardRequest_body:
  "ob_Body (snd (forwardRequest backend c b req)) = marshalRequest (req\<lparr>rq_Model := b\<rparr>)"
  by (simp add: forwardRequest_def Let_def)

lemma forwardStreamRequest_body:
  "ob_Body (snd (forwardStreamRequest backend c b req))
     = marshalRequest (req\<lparr>rq_Model := b, rq_Stream := True\<rparr>)"
  by (simp add: forwardStreamRequest_def Let_def)

lemma handler_outbound:
  assumes "ShouldBindJSON body = Inr req"
    and "Route now u (sv_db srv) uid (rq_Model req) = (Inr rr, db')"
  shows "snd (fst (ChatCompletions backend now u duration (Some uid) body srv))
           = Some (snd (if rq_Stream req
                        then forwardStreamRequest backend (rr_Channel rr) (rr_BackendModelName rr) req
                        else forwardRequest backend (rr_Channel rr) (rr_BackendModelName rr) req))"
proof (cases "rq_Stream req")
  case True
  obtain e ob where f: "forwardStreamRequest backend (rr_Channel rr) (rr_BackendModelName rr) req
                        = (e, ob)"
    by (cases "forwardStreamRequest backend (rr_Channel rr) (rr_BackendModelName rr) req")
  show ?thesis using assms True f by (cases e) (simp_all add: ChatCompletions_def Let_def)
next
  case False
  obtain e ob where f: "forwardRequest backend (rr_Channel rr) (rr_BackendModelName rr) req
                        = (e, ob)"
    by (cases "forwardRequest backend (rr_Channel rr) (rr_BackendModelName rr) req")
  show ?thesis using assms False f by (cases e) (simp_all add: ChatCompletions_def Let_def)
qed

text \<open>
  Claim C1, as amended. For every request \<open>req\<close> the handler has bound and every routing
  result, the body sent to the backend is the JSON encoding of \<open>req\<close> with \<open>Model\<close>
  replaced by the backend model name: its members are among \<open>model\<close>, \<open>messages\<close> and
  \<open>stream\<close> (\<open>stream\<close> present only when true), and decoding it gives back \<open>req\<close> with
  only \<open>Model\<close> rewritten, so the messages' roles and contents and the stream flag reach
  the backend unchanged. Members of the incoming body that are not fields of
  \<open>ChatCompletionRequest\<close>, such as sampling parameters, are not part of \<open>req\<close> and are
  not forwarded.
\<close>

theorem C1_forwarded_body:
  assumes "ShouldBindJSON body = Inr req"
    and "Route now u (sv_db srv) uid (rq_Model req) = (Inr rr, db')"
  shows "map_option ob_Body
           (snd (fst (ChatCompletions backend now u duration (Some uid) body srv)))
           = Some (marshalRequest (req\<lparr>rq_Model := rr_BackendModelName rr\<rparr>))
       \<and> decodeRequest (marshalRequest (req\<lparr>rq_Model := rr_BackendModelName rr\<rparr>))
           = Inr (req\<lparr>rq_Model := rr_BackendModelName rr\<rparr>)
       \<and> set (map fst (members (marshalRequest (req\<lparr>rq_Model := rr_BackendModelName rr\<rparr>))))
           \<subseteq> {''model'', ''messages'', ''stream''}"
proof (intro conjI)
  show "map_option ob_Body
           (snd (fst (ChatCompletions backend now u duration (Some uid) body srv)))
           = Some (marshalRequest (req\<lparr>rq_Model := rr_BackendModelName rr\<rparr>))"
  proof (cases "rq_Stream req")
    case True
    then show ?thesis
      by (simp add: handler_outbound [OF assms] forwardStreamRequest_body marshalRequest_def)
  next
    case False
    then show ?thesis
      by (simp add: handler_outbound [OF assms] forwardRequest_body)
  qed
next
  show "decodeRequest (marshalRequest (req\<lparr>rq_Model := rr_BackendModelName rr\<rparr>))
           = Inr (req\<lparr>rq_Model := rr_BackendModelName rr\<rparr>)"
    by (rule decodeRequest_marshal)
next
  show "set (map fst (members (marshalRequest (req\<lparr>rq_Model := rr_BackendModelName rr\<rparr>))))
           \<subseteq> {''model'', ''messages'', ''stream''}"
    by (rule marshal_names)
qed


theorem C1_witness:
  "ShouldBindJSON (Some example_body) = Inr example_request
   \<and> Route 100 0 (sv_db example_server) 7 (rq_Model example_request)
       = (Inr \<lparr>rr_Channel = example_c1, rr_BackendModelName = ''x'', rr_SessionID = 1,
               rr_IsNew = True\<rparr>, example_db1)
   \<and> map_option ob_Body
        (snd (fst (ChatCompletions (\<lambda>_. HttpReply 200 True) 100 0 1 (Some 7) (Some example_body)
                     example_server)))
       = Some (JObject [(''model'', JString ''x''), (''messages'', JArray [example_message])])"
proof -
  have r: "Route 100 0 (sv_db example_server) 7 (rq_Model example_request)
       = (Inr \<lparr>rr_Channel = example_c1, rr_BackendModelName = ''x'', rr_SessionID = 1,
               rr_IsNew = True\<rparr>, example_db1)"
    using route_first [of 0] by (simp add: example_server_def example_fields)
  note t = C1_forwarded_body [OF bind_example r, where backend = "\<lambda>_. HttpReply 200 True"
      and duration = 1]
  have "marshalRequest (example_request\<lparr>rq_Model := ''x''\<rparr>)
        = JObject [(''model'', JString ''x''), (''messages'', JArray [example_message])]"
    by (simp add: marshalRequest_def marshalMessage_def example_request_def example_message_def)
  with t bind_example r show ?thesis by simp
qed

text \<open>
  The claim as stated fails: the body carries \<open>"temperature": 0.7\<close>; it binds, is routed
  to channel 1, and the body sent to \<open>http://one/chat/completions\<close> has no
  \<open>temperature\<close> member.
\<close>

theorem C1_counterexample:
  "ShouldBindJSON (Some example_body) = Inr example_request
   \<and> map_of (members example_body) ''temperature'' = Some (JNumber (7 / 10))
   \<and> snd (fst (ChatCompletions (\<lambda>_. HttpReply 200 True) 100 0 1 (Some 7) (Some example_body)
                  example_server)) = Some example_outbound
   \<and> map_of (members (ob_Body example_outbound)) ''temperature'' = None"
proof -
  have a: "map_of (members example_body) ''temperature'' = Some (JNumber (7 / 10))"
    by (simp add: example_body_def members_def)
  have b: "map_of (members (ob_Body example_outbound)) ''temperature'' = None"
    by (simp add: example_outbound_def members_def)
  from bind_example a b handler_example_ok show ?thesis by simp
qed


section \<open>Passive health updates\<close>

lemma health_untouched:
  "sv_healthChecker (snd (ChatCompletions backend now u duration userID body srv))
     = sv_healthChecker srv"
  by (auto simp: ChatCompletions_def RecordChannelLatency_def RecordChannelError_def Let_def
        split: option.splits sum.splits prod.splits)

text \<open>
  Claim C3 (the forwarder reports every forwarded request to the health checker). The
  handler leaves the checker's map as it was, whatever the request and its outcome. At
  the example: channel 1 is registered (status unknown, no failure counted); the request
  is forwarded to it and the transport fails; the handler answers 502 and records the
  failure in the channel's metrics row, and the channel's health entry is still the one
  of registration, where \<open>UpdateStatus(1, false, err)\<close> would have counted one failure and
  stored the error.
\<close>

theorem C3_health_never_updated:
  "sv_healthChecker (snd (ChatCompletions backend now u duration userID body srv))
     = sv_healthChecker srv
   \<and> ChatCompletions (\<lambda>_. TransportFailure) 100 0 1 (Some 7) (Some example_body) example_server
     = ((JSON 502, Some example_outbound),
        example_server\<lparr>sv_db := UpdateChannelMetrics example_db1 1 1 False,
                       sv_prometheus := [ChannelLatencyObserve ''c1'' ''gpt-4'' 1,
                                         ErrorCounterInc ''channel'' ''c1'']\<rparr>)
   \<and> GetStatus (sv_healthChecker
        (snd (ChatCompletions (\<lambda>_. TransportFailure) 100 0 1 (Some 7) (Some example_body)
                example_server))) 1
     = Some \<lparr>hl_ChannelID = 1, hl_Status = StatusUnknown, hl_LastChecked = 0, hl_LastError = [],
             hl_ConsecutiveFailures = 0\<rparr>
   \<and> GetStatus (UpdateStatus 100 (sv_healthChecker example_server) 1 False (Some ''failed'')) 1
     = Some \<lparr>hl_ChannelID = 1, hl_Status = StatusUnknown, hl_LastChecked = 100,
             hl_LastError = ''failed'', hl_ConsecutiveFailures = 1\<rparr>"
proof (intro conjI)
  show "sv_healthChecker (snd (ChatCompletions backend now u duration userID body srv))
     = sv_healthChecker srv"
    by (rule health_untouched)
  show "ChatCompletions (\<lambda>_. TransportFailure) 100 0 1 (Some 7) (Some example_body) example_server
     = ((JSON 502, Some example_outbound),
        example_server\<lparr>sv_db := UpdateChannelMetrics example_db1 1 1 False,
                       sv_prometheus := [ChannelLatencyObserve ''c1'' ''gpt-4'' 1,
                                         ErrorCounterInc ''channel'' ''c1'']\<rparr>)"
    by (rule handler_example_fail)
  show "GetStatus (sv_healthChecker
        (snd (ChatCompletions (\<lambda>_. TransportFailure) 100 0 1 (Some 7) (Some example_body)
                example_server))) 1
     = Some \<lparr>hl_ChannelID = 1, hl_Status = StatusUnknown, hl_LastChecked = 0, hl_LastError = [],
             hl_ConsecutiveFailures = 0\<rparr>"
    by (simp add: health_untouched example_server_def GetStatus_def RegisterChannel_def)
  show "GetStatus (UpdateStatus 100 (sv_healthChecker example_server) 1 False (Some ''failed'')) 1
     = Some \<lparr>hl_ChannelID = 1, hl_Status = StatusUnknown, hl_LastChecked = 100,
             hl_LastError = ''failed'', hl_ConsecutiveFailures = 1\<rparr>"
    by (simp add: example_server_def GetStatus_def RegisterChannel_def UpdateStatus_def Let_def)
qed


section \<open>Deleting channels and models\<close>

lemma DeleteChannel_frame:
  "model_channels (DeleteChannel db i) = model_channels db
   \<and> sessions (DeleteChannel db i) = sessions db
   \<and> channel_metrics (DeleteChannel db i) = channel_metrics db
   \<and> models (DeleteChannel db i) = models db"
  by (simp add: DeleteChannel_def)

lemma Handler_DeleteModel_bindings:
  "GetModelChannelsByModel (Handler_DeleteModel db i) i = []
   \<and> model_channels (Handler_DeleteModel db i) = filter (\<lambda>x. mc_ModelID x \<noteq> i) (model_channels db)
   \<and> models (Handler_DeleteModel db i) = filter (\<lambda>m. md_ID m \<noteq> i) (models db)
   \<and> channels (Handler_DeleteModel db i) = channels db
   \<and> sessions (Handler_DeleteModel db i) = sessions db
   \<and> channel_metrics (Handler_DeleteModel db i) = channel_metrics db"
  by (simp add: Handler_DeleteModel_def DeleteModel_def RemoveAllModelChannelsForModel_def
        GetModelChannelsByModel_def)
text \<open>
  Claim C2 (deleting a channel removes its bindings, its metrics row and its sessions).
  \<open>Manager.Delete\<close> runs \<open>DELETE FROM channels WHERE id = ?\<close> on a connection that does
  not enforce foreign keys: the tables of bindings, sessions and metrics are left as they
  were. At the example store after two routes, deleting channel 1 removes the channel row
  and leaves its two bindings, the session pointing to it and its metrics row.
\<close>

theorem C2_channel_delete_leaves_dependents:
  "model_channels (Manager_Delete db i) = model_channels db
   \<and> sessions (Manager_Delete db i) = sessions db
   \<and> channel_metrics (Manager_Delete db i) = channel_metrics db
   \<and> GetChannel (Manager_Delete example_db2 1) 1 = None
   \<and> map mc_ID (GetModelChannelsByChannel (Manager_Delete example_db2 1) 1) = [1, 3]
   \<and> filter (\<lambda>s. se_ChannelID s = 1) (sessions (Manager_Delete example_db2 1)) = [example_s1]
   \<and> GetChannelMetrics (Manager_Delete example_db2 1) 1
       = Some \<lparr>cm_ChannelID = 1, cm_LatencyAvg = 1, cm_ErrorRate = 0, cm_RequestCount = 1,
               cm_SuccessCount = 1\<rparr>"
  by (simp add: Manager_Delete_def DeleteChannel_def GetChannel_def GetModelChannelsByChannel_def
        GetChannelMetrics_def example_defs)


end
